theory Spec2Isabelle
  imports Complex_Main "HOL-Library.Word" "HOL-Library.Multiset"
begin

section \<open>The ledger: StorageContract (Solidity)\<close>

text \<open>
  The contract is compiled with \<^verbatim>\<open>pragma solidity ^0.8.0\<close>: arithmetic on
  \<^verbatim>\<open>uint256\<close> is checked, an overflow, an underflow or a division by zero
  aborts the call with a panic, and a failed \<^verbatim>\<open>require\<close> aborts it with its
  message. A call that aborts leaves the storage as it was, so every external function is
  a function from the storage to either the abort or the new storage with what the call
  did to the outside (token calls, events).
\<close>

type_synonym address = "160 word"
type_synonym uint256 = "256 word"

datatype revert = Revert string | Panic

definition checked_add :: "uint256 \<Rightarrow> uint256 \<Rightarrow> revert + uint256" where
  "checked_add a b = (if unat a + unat b < 2 ^ 256 then Inr (a + b) else Inl Panic)"

definition checked_sub :: "uint256 \<Rightarrow> uint256 \<Rightarrow> revert + uint256" where
  "checked_sub a b = (if b \<le> a then Inr (a - b) else Inl Panic)"

definition checked_mul :: "uint256 \<Rightarrow> uint256 \<Rightarrow> revert + uint256" where
  "checked_mul a b = (if unat a * unat b < 2 ^ 256 then Inr (a * b) else Inl Panic)"

definition checked_div :: "uint256 \<Rightarrow> uint256 \<Rightarrow> revert + uint256" where
  "checked_div a b = (if b = 0 then Inl Panic else Inr (a div b))"

text \<open>Sequencing of steps that may abort: the first abort ends the call.\<close>

definition and_then :: "revert + 'a \<Rightarrow> ('a \<Rightarrow> revert + 'b) \<Rightarrow> revert + 'b" where
  "and_then r f = (case r of Inl e \<Rightarrow> Inl e | Inr x \<Rightarrow> f x)"

definition require :: "bool \<Rightarrow> string \<Rightarrow> revert + unit" where
  "require c msg = (if c then Inr () else Inl (Revert msg))"

record ClientStorage =
  allocatedSpace :: uint256
  usedSpace :: uint256
  paymentAmount :: uint256
  lastPaymentTime :: uint256
  storedFileCIDs :: "string list"
  fileSizes :: "string \<Rightarrow> uint256"

record Provider =
  providerAddress :: address
  allocatedStorage :: uint256
  usedStorage :: uint256
  pricePerGB :: uint256
  isActive :: bool
  clients :: "address list"
  clientStorages :: "address \<Rightarrow> ClientStorage"

record StorageContract =
  providers :: "address \<Rightarrow> Provider"
  cidToProvider :: "string \<Rightarrow> address"

text \<open>
  What a call does to the outside: the calls to the token contract \<^verbatim>\<open>aaiToken\<close>
  and the events it emits, in the order of the source.
\<close>

datatype effect =
    TokenTransferFrom address address uint256
  | TokenTransfer address uint256
  | ProviderRegistered address uint256 uint256
  | StoragePurchased address address uint256
  | FileStored address address string
  | MiningReward address uint256

text \<open>
  The transaction: \<^verbatim>\<open>msg.sender\<close>, \<^verbatim>\<open>block.timestamp\<close>,
  \<^verbatim>\<open>address(this)\<close>, and the token contract. The token is an OpenZeppelin ERC20
  outside this repository's contract; its two functions are taken as given: each answers
  \<^verbatim>\<open>true\<close> or \<^verbatim>\<open>false\<close>, or aborts.
\<close>

record tx_env =
  msg_sender :: address
  block_timestamp :: uint256
  this_address :: address
  aaiToken_transferFrom :: "address \<Rightarrow> address \<Rightarrow> uint256 \<Rightarrow> revert + bool"
  aaiToken_transfer :: "address \<Rightarrow> uint256 \<Rightarrow> revert + bool"

text \<open>The storage of a freshly deployed contract: every mapping entry is zero.\<close>

definition empty_ClientStorage :: ClientStorage where
  "empty_ClientStorage =
     \<lparr>allocatedSpace = 0, usedSpace = 0, paymentAmount = 0, lastPaymentTime = 0,
      storedFileCIDs = [], fileSizes = (\<lambda>_. 0)\<rparr>"

definition empty_Provider :: Provider where
  "empty_Provider =
     \<lparr>providerAddress = 0, allocatedStorage = 0, usedStorage = 0, pricePerGB = 0,
      isActive = False, clients = [], clientStorages = (\<lambda>_. empty_ClientStorage)\<rparr>"

definition empty_StorageContract :: StorageContract where
  "empty_StorageContract = \<lparr>providers = (\<lambda>_. empty_Provider), cidToProvider = (\<lambda>_. 0)\<rparr>"

subsection \<open>registerProvider\<close>

definition registerProvider ::
  "tx_env \<Rightarrow> uint256 \<Rightarrow> uint256 \<Rightarrow> StorageContract \<Rightarrow> revert + (StorageContract \<times> effect list)"
where
  "registerProvider e storage' price s =
     and_then (require (storage' > 0) ''Storage must be greater than 0'') (\<lambda>_.
     and_then (require (price > 0) ''Price must be greater than 0'') (\<lambda>_.
       let p = providers s (msg_sender e);
           p' = p\<lparr>providerAddress := msg_sender e, allocatedStorage := storage',
                  pricePerGB := price, isActive := True\<rparr>
       in Inr (s\<lparr>providers := (providers s)(msg_sender e := p')\<rparr>,
               [ProviderRegistered (msg_sender e) storage' price])))"

subsection \<open>purchaseStorage\<close>

definition purchaseStorage ::
  "tx_env \<Rightarrow> address \<Rightarrow> uint256 \<Rightarrow> StorageContract \<Rightarrow> revert + (StorageContract \<times> effect list)"
where
  "purchaseStorage e provider' storageAmount s =
     (let provider = providers s provider' in
      and_then (require (isActive provider) ''Provider is not active'') (\<lambda>_.
      and_then (checked_sub (allocatedStorage provider) (usedStorage provider)) (\<lambda>free.
      and_then (require (free \<ge> storageAmount) ''Insufficient storage available'') (\<lambda>_.
      and_then (checked_mul storageAmount (pricePerGB provider)) (\<lambda>payment.
      and_then (aaiToken_transferFrom e (msg_sender e) (this_address e) payment) (\<lambda>paid.
      and_then (require paid ''Payment failed'') (\<lambda>_.
        let clientStorage = clientStorages provider (msg_sender e);
            clients' = (if allocatedSpace clientStorage = 0
                        then clients provider @ [msg_sender e] else clients provider)
        in
      and_then (checked_add (allocatedSpace clientStorage) storageAmount) (\<lambda>allocated'.
      and_then (checked_add (paymentAmount clientStorage) payment) (\<lambda>payment'.
      and_then (checked_add (usedStorage provider) storageAmount) (\<lambda>used'.
        let clientStorage' = clientStorage\<lparr>allocatedSpace := allocated',
              paymentAmount := payment', lastPaymentTime := block_timestamp e\<rparr>;
            provider'' = provider\<lparr>clients := clients',
              clientStorages := (clientStorages provider)(msg_sender e := clientStorage'),
              usedStorage := used'\<rparr>
        in Inr (s\<lparr>providers := (providers s)(provider' := provider'')\<rparr>,
                [TokenTransferFrom (msg_sender e) (this_address e) payment,
                 StoragePurchased (msg_sender e) provider' payment])))))))))))"

subsection \<open>storeFile\<close>

text \<open>
  The conversion of the submitted size to whole units:
  \<^verbatim>\<open>(_fileSize * 1e9) / (1000 * 1e9)\<close>, then 0 raised to 1 when the submitted size
  is not 0. The product is checked, so a size of \<open>2^256 / 10^9\<close> or more aborts.
\<close>

definition fileSizeGB :: "uint256 \<Rightarrow> revert + uint256" where
  "fileSizeGB fileSize =
     and_then (checked_mul fileSize 1000000000) (\<lambda>scaled.
     and_then (checked_div scaled (1000 * 1000000000)) (\<lambda>gb.
       Inr (if gb = 0 \<and> fileSize > 0 then 1 else gb)))"

definition storeFile ::
  "tx_env \<Rightarrow> address \<Rightarrow> string \<Rightarrow> uint256 \<Rightarrow> StorageContract \<Rightarrow> revert + (StorageContract \<times> effect list)"
where
  "storeFile e provider' cid fileSize s =
     (let provider = providers s provider';
          clientStorage = clientStorages provider (msg_sender e) in
      and_then (fileSizeGB fileSize) (\<lambda>gb.
      and_then (checked_add (usedSpace clientStorage) gb) (\<lambda>needed.
      and_then (require (allocatedSpace clientStorage \<ge> needed) ''Insufficient storage purchased'') (\<lambda>_.
      and_then (checked_add (usedSpace clientStorage) gb) (\<lambda>used'.
        let clientStorage' = clientStorage\<lparr>
              storedFileCIDs := storedFileCIDs clientStorage @ [cid],
              fileSizes := (fileSizes clientStorage)(cid := fileSize),
              usedSpace := used'\<rparr>;
            provider'' = provider\<lparr>
              clientStorages := (clientStorages provider)(msg_sender e := clientStorage')\<rparr>
        in Inr (s\<lparr>providers := (providers s)(provider' := provider''),
                   cidToProvider := (cidToProvider s)(cid := provider')\<rparr>,
                [FileStored (msg_sender e) provider' cid]))))))"

subsection \<open>The capacity invariant\<close>

definition client_within_allocation :: "StorageContract \<Rightarrow> bool" where
  "client_within_allocation s =
     (\<forall>p c. usedSpace (clientStorages (providers s p) c)
              \<le> allocatedSpace (clientStorages (providers s p) c))"

definition provider_within_allocation :: "StorageContract \<Rightarrow> bool" where
  "provider_within_allocation s =
     (\<forall>p. usedStorage (providers s p) \<le> allocatedStorage (providers s p))"

subsection \<open>distributeMiningRewards\<close>

text \<open>\<^verbatim>\<open>1 ether\<close> is \<open>10^18\<close>.\<close>

definition distributeMiningRewards ::
  "tx_env \<Rightarrow> StorageContract \<Rightarrow> revert + (StorageContract \<times> effect list)"
where
  "distributeMiningRewards e s =
     (let provider = providers s (msg_sender e) in
      and_then (require (isActive provider) ''Provider is not active'') (\<lambda>_.
      and_then (checked_mul (usedStorage provider) 100) (\<lambda>scaled.
      and_then (checked_div scaled (allocatedStorage provider)) (\<lambda>utilizationRate.
      and_then (checked_mul utilizationRate 1000000000000000000) (\<lambda>weighted.
      and_then (checked_div weighted 100) (\<lambda>rewardAmount.
      and_then (aaiToken_transfer e (msg_sender e) rewardAmount) (\<lambda>sent.
      and_then (require sent ''Reward transfer failed'') (\<lambda>_.
        Inr (s, [TokenTransfer (msg_sender e) rewardAmount,
                 MiningReward (msg_sender e) rewardAmount])))))))))"

subsection \<open>getFileDetails\<close>

text \<open>
  The inner loop compares \<^verbatim>\<open>keccak256(abi.encodePacked(...))\<close> of the stored
  content address and of the argument; the hashes are equal exactly when the strings are
  (collisions of the hash are left out). \<open>scan_cids\<close> is the inner loop: whether it
  reaches its \<^verbatim>\<open>break\<close>. \<open>scan_clients\<close> is the outer loop over
  \<^verbatim>\<open>fileProvider.clients\<close>, carrying \<^verbatim>\<open>fileOwner\<close> and
  \<^verbatim>\<open>storedFileSize\<close>.
\<close>

fun scan_cids :: "string list \<Rightarrow> string \<Rightarrow> bool" where
  "scan_cids [] cid = False"
| "scan_cids (c # cs) cid = (if c = cid then True else scan_cids cs cid)"

fun scan_clients ::
  "Provider \<Rightarrow> string \<Rightarrow> address list \<Rightarrow> address \<times> uint256 \<Rightarrow> address \<times> uint256"
where
  "scan_clients fileProvider cid [] found = found"
| "scan_clients fileProvider cid (c # cs) found =
     (let clientStorage = clientStorages fileProvider c;
          found' = (if scan_cids (storedFileCIDs clientStorage) cid
                    then (c, fileSizes clientStorage cid) else found)
      in if fst found' \<noteq> 0 then found' else scan_clients fileProvider cid cs found')"

definition getFileDetails ::
  "StorageContract \<Rightarrow> string \<Rightarrow> revert + (address \<times> address \<times> uint256)"
where
  "getFileDetails s cid =
     (let providerAddr = cidToProvider s cid in
      and_then (require (providerAddr \<noteq> 0) ''File not found'') (\<lambda>_.
        let fileProvider = providers s providerAddr;
            found = scan_clients fileProvider cid (clients fileProvider) (0, 0)
        in
      and_then (require (fst found \<noteq> 0) ''File not found or access denied'') (\<lambda>_.
        Inr (providerAddr, fst found, snd found))))"

subsection \<open>Runs of the ledger\<close>

text \<open>
  The states the contract reaches from its deployment by calls that do not abort, with
  the log of what the calls did. A content address is known to the ledger when some
  \<^verbatim>\<open>storeFile\<close> call recorded it, that is, when the log has a
  \<open>FileStored\<close> event for it.
\<close>

inductive ledger_run :: "effect list \<Rightarrow> StorageContract \<Rightarrow> bool" where
  deployed: "ledger_run [] empty_StorageContract"
| registered:
    "ledger_run evs s \<Longrightarrow> registerProvider e amount price s = Inr (s', fx)
       \<Longrightarrow> ledger_run (evs @ fx) s'"
| purchased:
    "ledger_run evs s \<Longrightarrow> purchaseStorage e p amount s = Inr (s', fx)
       \<Longrightarrow> ledger_run (evs @ fx) s'"
| stored:
    "ledger_run evs s \<Longrightarrow> storeFile e p c size' s = Inr (s', fx)
       \<Longrightarrow> ledger_run (evs @ fx) s'"
| rewarded:
    "ledger_run evs s \<Longrightarrow> distributeMiningRewards e s = Inr (s', fx)
       \<Longrightarrow> ledger_run (evs @ fx) s'"

fun records_file :: "string \<Rightarrow> effect \<Rightarrow> bool" where
  "records_file c (FileStored _ _ c') = (c' = c)"
| "records_file c _ = False"

definition known_to_ledger :: "effect list \<Rightarrow> string \<Rightarrow> bool" where
  "known_to_ledger evs c = list_ex (records_file c) evs"

text \<open>
  The payout in the words of the specification: \<open>(used / allocated) \<times> 100\<close> reward
  units, in whole units, a unit being a hundredth of a token (\<open>10^16\<close> of its smallest
  denomination).
\<close>

definition utilization_reward :: "nat \<Rightarrow> nat \<Rightarrow> nat" where
  "utilization_reward used allocated = (used * 100 div allocated) * 10 ^ 16"

text \<open>
  A ledger to run the calls on: provider \<open>1\<close> is registered with 200 units at price 10
  and has 50 units in use; client \<open>2\<close> has bought nothing yet. The token accepts every
  transfer.
\<close>

definition example_ledger :: StorageContract where
  "example_ledger =
     \<lparr>providers = (\<lambda>_. empty_Provider)
        (1 := \<lparr>providerAddress = 1, allocatedStorage = 200, usedStorage = 50,
               pricePerGB = 10, isActive = True, clients = [],
               clientStorages = (\<lambda>_. empty_ClientStorage)\<rparr>),
      cidToProvider = (\<lambda>_. 0)\<rparr>"

definition example_tx :: "address \<Rightarrow> tx_env" where
  "example_tx sender =
     \<lparr>msg_sender = sender, block_timestamp = 1700000000, this_address = 99,
      aaiToken_transferFrom = (\<lambda>_ _ _. Inr True), aaiToken_transfer = (\<lambda>_ _. Inr True)\<rparr>"

text \<open>
  The same ledger after client \<open>2\<close> has bought 30 units from provider \<open>1\<close> and
  stored the file \<open>QmA\<close> with the submitted size 500.
\<close>

definition stored_ledger :: StorageContract where
  "stored_ledger =
     \<lparr>providers = (\<lambda>_. empty_Provider)
        (1 := \<lparr>providerAddress = 1, allocatedStorage = 200, usedStorage = 80,
               pricePerGB = 10, isActive = True, clients = [2],
               clientStorages = (\<lambda>_. empty_ClientStorage)
                 (2 := \<lparr>allocatedSpace = 30, usedSpace = 1, paymentAmount = 300,
                        lastPaymentTime = 1700000000, storedFileCIDs = [''QmA''],
                        fileSizes = (\<lambda>_. 0)(''QmA'' := 500)\<rparr>)\<rparr>),
      cidToProvider = (\<lambda>_. 0)(''QmA'' := 1)\<rparr>"

section \<open>The download: downloadFile\<close>

text \<open>
  \<^verbatim>\<open>downloadFile\<close> talks to three systems: the metadata index (the
  \<^verbatim>\<open>stored_files\<close> table, read with \<^verbatim>\<open>.select(...).eq('cid', cid).single()\<close>),
  the content store (the IPFS node at \<^verbatim>\<open>127.0.0.1:5001\<close>) and the ledger. The
  model is a function of what each of them answers; it returns how the run ends and the
  requests the run issued, in their order. A promise that rejects is an answer
  \<open>None\<close> (or \<open>Rejected\<close>) and takes the \<^verbatim>\<open>catch\<close> the source gives it.
  The model starts where the source has the wallet: the prompts for the content address
  and the output path and the loading of the private key come before.
\<close>

type_synonym bytes = "8 word list"

record stored_file =
  file_cid :: string
  file_provider_id :: string
  file_client_address :: string
  file_size :: rat
  file_name :: string
  encryption_salt :: string

text \<open>
  The answer \<^verbatim>\<open>{ data, error }\<close> of \<^verbatim>\<open>.single()\<close>: an error, or no error
  with \<^verbatim>\<open>data\<close> either \<^verbatim>\<open>null\<close> or the row.
\<close>

datatype single_answer = SingleError | SingleNull | SingleRow stored_file

text \<open>
  What \<^verbatim>\<open>getFileDetails(cid).call(...)\<close> gives the caller: the promise rejects (the
  contract aborted or the node is unreachable), or it resolves to a value that is falsy,
  that is not an array, or that is an array; an element of the array is a string, or
  \<open>None\<close> for \<^verbatim>\<open>undefined\<close> and \<^verbatim>\<open>null\<close>.
\<close>

datatype call_answer =
    Rejected string
  | Falsy
  | NotArray
  | Array "string option list"

text \<open>
  The functions of the CryptoJS library that the upload and the download call. The
  library is not part of the repository, so they are parameters. A key or a salt is
  passed either as a string or as a \<^verbatim>\<open>WordArray\<close> (its bytes), and the library
  treats the two differently, so the argument keeps which one it is.
  \<^item> \<open>PBKDF2 password salt\<close>: \<^verbatim>\<open>CryptoJS.PBKDF2(password, salt, {keySize: 256/32,
    iterations: 10000})\<close>, the derived key's bytes;
  \<^item> \<open>AES_encrypt message key iv seed\<close>: \<^verbatim>\<open>CryptoJS.AES.encrypt(message, key, {mode: CBC,
    padding: Pkcs7, iv: iv}).toString()\<close>, where \<open>message\<close> is a string, given by its
    code points, and \<open>seed\<close> stands for the random numbers the library draws by
    itself;
  \<^item> \<open>AES_decrypt ciphertext key\<close>: \<^verbatim>\<open>CryptoJS.AES.decrypt({ciphertext: ciphertext}, key,
    {mode: CBC, padding: Pkcs7})\<close>, the bytes of the result, \<open>None\<close> when the call throws;
  \<^item> \<open>AES_encrypt_passphrase message passphrase seed\<close>:
    \<^verbatim>\<open>CryptoJS.AES.encrypt(message, passphrase).toString()\<close>, as the credential store
    calls it, with a passphrase and no options;
  \<^item> \<open>AES_decrypt_passphrase text passphrase\<close>:
    \<^verbatim>\<open>CryptoJS.AES.decrypt(text, passphrase).toString(CryptoJS.enc.Utf8)\<close>, \<open>None\<close>
    when the decryption or the decoding throws.
\<close>

datatype js_arg = Str string | WordArray bytes

record cryptojs =
  PBKDF2 :: "js_arg \<Rightarrow> js_arg \<Rightarrow> bytes"
  AES_encrypt :: "nat list \<Rightarrow> js_arg \<Rightarrow> bytes \<Rightarrow> nat \<Rightarrow> string"
  AES_decrypt :: "bytes \<Rightarrow> js_arg \<Rightarrow> bytes option"
  AES_encrypt_passphrase :: "string \<Rightarrow> string \<Rightarrow> nat \<Rightarrow> string"
  AES_decrypt_passphrase :: "string \<Rightarrow> string \<Rightarrow> string option"

text \<open>
  What the upload and the download both hold once the wallet is set up: the private key,
  the address \<^verbatim>\<open>accounts[0]\<close> of the wallet, and the library.
\<close>

record client_session =
  privateKey :: string
  walletAddress :: string
  CryptoJS :: cryptojs

text \<open>
  The download's inputs (\<open>download_cid\<close> is \<^verbatim>\<open>downloadDetails.cid\<close>) and the
  answers of the three systems, one field for each request of the source.
\<close>

record download_world = client_session +
  download_cid :: string
  outputPath :: string
  dbCheck :: single_answer
  ipfs_isOnline :: "bool option"
  ipfs_version :: "string option"
  ipfs_id :: "string option"
  fileDetails :: call_answer
  fileMetadata :: single_answer
  ipfs_cat :: "bytes option"
  fileData :: single_answer
  fs_writeFile :: "string \<Rightarrow> bytes \<Rightarrow> bool"

datatype request =
    IndexSelect string
  | StoreIsOnline
  | StoreVersion
  | StoreId
  | StoreCat string
  | LedgerGetFileDetails string string
  | WriteFile string bytes

text \<open>
  How a run ends. Each failure is one \<^verbatim>\<open>spinner.fail\<close> of the source:
  \<^item> \<open>DatabaseCheckFailed\<close>: 'Failed to verify file in database';
  \<^item> \<open>ContentStoreUnreachable\<close>: 'Failed to connect to IPFS node';
  \<^item> \<open>InvalidFileDetails\<close>: 'File not found or invalid file details. Please check if the
    CID is correct.';
  \<^item> \<open>NotFound\<close>: 'File not found or access denied. Please check if you are the owner of
    this file.';
  \<^item> \<open>ProviderMismatch\<close>: 'Invalid file details. Provider information not found.';
  \<^item> \<open>PermissionDenied\<close>: 'You do not have permission to download this file. Only the
    owner can download it.';
  \<^item> \<open>MetadataMissing\<close>: 'Could not retrieve file metadata';
  \<^item> \<open>EncryptionDetailsMissing\<close>: 'Could not retrieve file encryption details';
  \<^item> \<open>DownloadFailed\<close>: an exception reached the outer \<^verbatim>\<open>catch\<close>
    ('Download failed: ...').
\<close>

datatype download_failure =
    DatabaseCheckFailed
  | ContentStoreUnreachable
  | InvalidFileDetails
  | NotFound
  | ProviderMismatch
  | PermissionDenied
  | MetadataMissing
  | EncryptionDetailsMissing
  | DownloadFailed string

datatype download_outcome = Downloaded | Failed download_failure

text \<open>\<^verbatim>\<open>String.prototype.toLowerCase\<close> on the characters an address has (ASCII).\<close>

definition toLowerCase_char :: "char \<Rightarrow> char" where
  "toLowerCase_char c =
     (case map_of (zip ''ABCDEFGHIJKLMNOPQRSTUVWXYZ'' ''abcdefghijklmnopqrstuvwxyz'') c of
        Some lower \<Rightarrow> lower
      | None \<Rightarrow> c)"

definition toLowerCase :: "string \<Rightarrow> string" where
  "toLowerCase s = map toLowerCase_char s"

definition zero_address :: string where
  "zero_address = ''0x0000000000000000000000000000000000000000''"

text \<open>A value is falsy when it is \<^verbatim>\<open>undefined\<close>, \<^verbatim>\<open>null\<close> or the empty string.\<close>

definition falsy :: "string option \<Rightarrow> bool" where
  "falsy v = (case v of None \<Rightarrow> True | Some s \<Rightarrow> s = [])"

text \<open>
  \<^verbatim>\<open>debugIPFSConnection\<close>: \<^verbatim>\<open>isOnline\<close>, \<^verbatim>\<open>version\<close> and
  \<^verbatim>\<open>id\<close> are awaited one after the other; the first that throws ends it with
  \<^verbatim>\<open>null\<close>.
\<close>

definition debugIPFSConnection :: "download_world \<Rightarrow> bool \<times> request list" where
  "debugIPFSConnection w =
     (case ipfs_isOnline w of
        None \<Rightarrow> (False, [StoreIsOnline])
      | Some _ \<Rightarrow>
         (case ipfs_version w of
            None \<Rightarrow> (False, [StoreIsOnline, StoreVersion])
          | Some _ \<Rightarrow>
             (case ipfs_id w of
                None \<Rightarrow> (False, [StoreIsOnline, StoreVersion, StoreId])
              | Some _ \<Rightarrow> (True, [StoreIsOnline, StoreVersion, StoreId]))))"

text \<open>
  The steps after the ownership check: the size from the index (only displayed), the
  ciphertext from the content store, the salt from the index, the key, the decryption,
  the write. \<^verbatim>\<open>ipfs.isOnline()\<close> is called here without \<^verbatim>\<open>await\<close>: the
  request is issued and its answer is only logged.
\<close>

definition fetch_and_decrypt :: "download_world \<Rightarrow> download_outcome \<times> request list" where
  "fetch_and_decrypt w =
     (case fileMetadata w of
        SingleError \<Rightarrow> (Failed MetadataMissing, [IndexSelect (download_cid w)])
      | SingleNull \<Rightarrow> (Failed MetadataMissing, [IndexSelect (download_cid w)])
      | SingleRow _ \<Rightarrow>
         (case ipfs_cat w of
            None \<Rightarrow>
              (Failed (DownloadFailed ''ipfs.cat''),
               [IndexSelect (download_cid w), StoreIsOnline, StoreCat (download_cid w)])
          | Some encryptedContent \<Rightarrow>
             (let sent = [IndexSelect (download_cid w), StoreIsOnline, StoreCat (download_cid w),
                          IndexSelect (download_cid w)] in
              case fileData w of
                SingleError \<Rightarrow> (Failed EncryptionDetailsMissing, sent)
              | SingleNull \<Rightarrow> (Failed EncryptionDetailsMissing, sent)
              | SingleRow row \<Rightarrow>
                 if encryption_salt row = [] then (Failed EncryptionDetailsMissing, sent)
                 else
                   (let encryptionKey =
                          PBKDF2 (CryptoJS w) (Str (walletAddress w @ privateKey w))
                            (Str (encryption_salt row))
                    in case AES_decrypt (CryptoJS w) encryptedContent (WordArray encryptionKey) of
                         None \<Rightarrow> (Failed (DownloadFailed ''AES.decrypt''), sent)
                       | Some fileContent \<Rightarrow>
                           if fs_writeFile w (outputPath w) fileContent
                           then (Downloaded, sent @ [WriteFile (outputPath w) fileContent])
                           else (Failed (DownloadFailed ''fs.writeFile''),
                                 sent @ [WriteFile (outputPath w) fileContent])))))"

text \<open>
  The ledger query and the three checks on its answer, in the order of the source: the
  shape of the answer, the owner, the provider, the ownership.
\<close>

definition verify_ownership :: "download_world \<Rightarrow> download_outcome \<times> request list" where
  "verify_ownership w =
     (let asked = [LedgerGetFileDetails (download_cid w) (walletAddress w)] in
      case fileDetails w of
        Rejected msg \<Rightarrow> (Failed (DownloadFailed msg), asked)
      | Falsy \<Rightarrow> (Failed InvalidFileDetails, asked)
      | NotArray \<Rightarrow> (Failed InvalidFileDetails, asked)
      | Array vs \<Rightarrow>
          if length vs \<noteq> 3 then (Failed InvalidFileDetails, asked)
          else
            (let provider_v = vs ! 0; owner_v = vs ! 1 in
             if falsy owner_v \<or> owner_v = Some zero_address
             then (Failed NotFound, asked)
             else if falsy provider_v \<or> provider_v = Some zero_address
             then (Failed ProviderMismatch, asked)
             else if toLowerCase (the owner_v) \<noteq> toLowerCase (walletAddress w)
             then (Failed PermissionDenied, asked)
             else (let (outcome, sent) = fetch_and_decrypt w in (outcome, asked @ sent))))"

definition downloadFile :: "download_world \<Rightarrow> download_outcome \<times> request list" where
  "downloadFile w =
     (case dbCheck w of
        SingleError \<Rightarrow> (Failed DatabaseCheckFailed, [IndexSelect (download_cid w)])
      | _ \<Rightarrow>
         (case debugIPFSConnection w of
            (False, probes) \<Rightarrow> (Failed ContentStoreUnreachable, IndexSelect (download_cid w) # probes)
          | (True, probes) \<Rightarrow>
              (let (outcome, sent) = verify_ownership w
               in (outcome, IndexSelect (download_cid w) # probes @ sent))))"






text \<open>
  A run of client B on a file of client A: the index has the file, the content store
  answers the probe, and the ledger names A as the owner.
\<close>

definition no_library :: cryptojs where
  "no_library =
     \<lparr>PBKDF2 = (\<lambda>_ _. []), AES_encrypt = (\<lambda>_ _ _ _. []), AES_decrypt = (\<lambda>_ _. None),
      AES_encrypt_passphrase = (\<lambda>_ _ _. []), AES_decrypt_passphrase = (\<lambda>_ _. None)\<rparr>"




text \<open>
  The same run by client A, who writes the address in lower case, with a stand-in for
  the library so that the run reaches the write: its decryption returns the ciphertext,
  and with a passphrase it reverses the text, to encrypt and to decrypt.
\<close>

definition standin_library :: cryptojs where
  "standin_library =
     \<lparr>PBKDF2 = (\<lambda>_ _. []), AES_encrypt = (\<lambda>_ _ _ _. []), AES_decrypt = (\<lambda>c _. Some c),
      AES_encrypt_passphrase = (\<lambda>message _ _. rev message),
      AES_decrypt_passphrase = (\<lambda>text _. Some (rev text))\<rparr>"


section \<open>The upload: startClient\<close>

text \<open>
  The part of \<^verbatim>\<open>startClient\<close> after the purchase: the file is read, encrypted,
  sized, added to the content store, recorded in the index and registered on the ledger.
  As for the download, the model is a function of the inputs and of what the three systems
  answer, and returns how the run ends with the requests it issued.
\<close>

text \<open>
  \<^verbatim>\<open>file.toString()\<close> decodes the bytes read from the file as UTF-8 (the default
  encoding of \<^verbatim>\<open>Buffer.prototype.toString\<close>). The result is modelled as the list of
  its code points; a byte sequence that is not valid UTF-8 decodes to the replacement
  character U+FFFD, following the decoder of the WHATWG Encoding standard: a lead byte
  sets how many continuation bytes are needed and the range allowed for the next one; a
  byte outside that range ends the sequence with one U+FFFD and is decoded again as the
  start of a sequence; an unfinished sequence at the end gives one U+FFFD.
\<close>

datatype utf8_start = Emit nat | Begin nat nat nat nat

definition utf8_lead :: "nat \<Rightarrow> utf8_start" where
  "utf8_lead b =
     (if b \<le> 0x7F then Emit b
      else if 0xC2 \<le> b \<and> b \<le> 0xDF then Begin 1 (b mod 32) 0x80 0xBF
      else if 0xE0 \<le> b \<and> b \<le> 0xEF
      then Begin 2 (b mod 16) (if b = 0xE0 then 0xA0 else 0x80) (if b = 0xED then 0x9F else 0xBF)
      else if 0xF0 \<le> b \<and> b \<le> 0xF4
      then Begin 3 (b mod 8) (if b = 0xF0 then 0x90 else 0x80) (if b = 0xF4 then 0x8F else 0xBF)
      else Emit 0xFFFD)"

fun utf8_decode :: "nat \<Rightarrow> nat \<Rightarrow> nat \<Rightarrow> nat \<Rightarrow> nat list \<Rightarrow> nat list" where
  "utf8_decode needed cp lower upper [] = (if needed = 0 then [] else [0xFFFD])"
| "utf8_decode needed cp lower upper (b # bs) =
     (if needed = 0 \<or> \<not> (lower \<le> b \<and> b \<le> upper)
      then (if needed = 0 then [] else [0xFFFD]) @
           (case utf8_lead b of
              Emit c \<Rightarrow> c # utf8_decode 0 0 0x80 0xBF bs
            | Begin n c lo hi \<Rightarrow> utf8_decode n c lo hi bs)
      else if needed = 1 then (cp * 64 + b mod 64) # utf8_decode 0 0 0x80 0xBF bs
      else utf8_decode (needed - 1) (cp * 64 + b mod 64) 0x80 0xBF bs)"

definition Buffer_toString :: "bytes \<Rightarrow> nat list" where
  "Buffer_toString buf = utf8_decode 0 0 0x80 0xBF (map unat buf)"

text \<open>\<^verbatim>\<open>WordArray.toString()\<close>: the bytes in hexadecimal, two lower-case digits each.\<close>

definition hex_digit :: "nat \<Rightarrow> char" where
  "hex_digit n = ''0123456789abcdef'' ! (n mod 16)"

definition WordArray_toString :: "bytes \<Rightarrow> string" where
  "WordArray_toString ws = concat (map (\<lambda>w. [hex_digit (unat w div 16), hex_digit (unat w)]) ws)"


record upload_world = client_session +
  upload_file :: bytes
  upload_fileName :: string
  provider_address :: string
  provider_ident :: string
  provider_storage :: rat
  random_salt :: bytes
  random_iv :: bytes
  library_seed :: nat
  ipfs_add :: "string \<Rightarrow> string option"
  trackFileStorage_answer :: bool
  storeFile_answer :: bool



definition encrypt_file :: "upload_world \<Rightarrow> string" where
  "encrypt_file w =
     (let encryptionKey =
            PBKDF2 (CryptoJS w) (Str (walletAddress w @ privateKey w))
              (WordArray (random_salt w))
      in AES_encrypt (CryptoJS w) (Buffer_toString (upload_file w))
           (Str (WordArray_toString encryptionKey)) (random_iv w) (library_seed w))"

definition uploaded_row :: "upload_world \<Rightarrow> string \<Rightarrow> stored_file" where
  "uploaded_row w path =
     \<lparr>file_cid = path, file_provider_id = provider_ident w,
      file_client_address = walletAddress w,
      file_size = Fract (int (length (upload_file w))) (1024 * 1024 * 1024),
      file_name = upload_fileName w,
      encryption_salt = WordArray_toString (random_salt w)\<rparr>"




text \<open>
  The download of what an upload stored. \<^verbatim>\<open>ipfs.add(encrypted)\<close> stores the
  characters of the string \<open>encrypted\<close> as bytes, and \<^verbatim>\<open>ipfs.cat\<close> returns them;
  the index returns the row the upload inserted; the ledger names the uploader as the
  owner. \<open>written\<close> is what a run wrote to the output file, if it wrote.
\<close>

definition string_bytes :: "string \<Rightarrow> bytes" where
  "string_bytes str = map (\<lambda>c. word_of_nat (of_char c)) str"

definition download_of_upload :: "upload_world \<Rightarrow> string \<Rightarrow> download_world" where
  "download_of_upload u path =
     \<lparr>privateKey = privateKey u, walletAddress = walletAddress u, CryptoJS = CryptoJS u,
      download_cid = path, outputPath = ''download.bin'',
      dbCheck = SingleRow (uploaded_row u path),
      ipfs_isOnline = Some True, ipfs_version = Some ''0.22.0'', ipfs_id = Some ''peer'',
      fileDetails = Array [Some (provider_address u), Some (walletAddress u), Some ''1''],
      fileMetadata = SingleRow (uploaded_row u path),
      ipfs_cat = Some (string_bytes (encrypt_file u)),
      fileData = SingleRow (uploaded_row u path),
      fs_writeFile = (\<lambda>_ _. True)\<rparr>"

fun written :: "request list \<Rightarrow> bytes option" where
  "written [] = None"
| "written (WriteFile _ content # _) = Some content"
| "written (_ # rs) = written rs"

section \<open>The metadata index: getActiveProviders\<close>

text \<open>
  A row of the \<^verbatim>\<open>providers\<close> table (the columns the query uses). The numeric
  columns are \<^verbatim>\<open>DECIMAL NOT NULL\<close>; \<^verbatim>\<open>is_active\<close> and
  \<^verbatim>\<open>last_updated\<close> have defaults and may be null. A time is a number of
  milliseconds.
\<close>

record provider_row =
  provider_id :: string
  wallet_address :: string
  allocated_storage :: rat
  price_per_gb :: rat
  is_active :: "bool option"
  total_storage :: rat
  available_storage :: rat
  last_updated :: "int option"

text \<open>
  The query the source builds: \<^verbatim>\<open>.eq('is_active', true).gte('last_updated',
  fiveMinutesAgo).order('last_updated', { ascending: false })\<close>. It is the part the
  server evaluates. A null never satisfies a comparison. Rows with equal times keep the
  order of the table (the database leaves their order open).
\<close>

definition fiveMinutesAgo :: "int \<Rightarrow> int" where
  "fiveMinutesAgo now = now - 5 * 60 * 1000"

definition matches_query :: "int \<Rightarrow> provider_row \<Rightarrow> bool" where
  "matches_query since r =
     (is_active r = Some True \<and>
      (case last_updated r of None \<Rightarrow> False | Some t \<Rightarrow> since \<le> t))"

definition newest_first :: "provider_row list \<Rightarrow> provider_row list" where
  "newest_first rows = sort_key (\<lambda>r. - the (last_updated r)) rows"

definition select_providers :: "int \<Rightarrow> provider_row list \<Rightarrow> provider_row list" where
  "select_providers since table = newest_first (filter (matches_query since) table)"

text \<open>
  The answer \<^verbatim>\<open>{ data, error }\<close> of the query, and
  \<^verbatim>\<open>getActiveProviders\<close> on it: an error is thrown, and the rows are filtered
  once more, in the client.
\<close>

datatype 'a answer = Answer (data: "'a option") (error: "string option")

definition valid_provider :: "provider_row \<Rightarrow> bool" where
  "valid_provider provider =
     (allocated_storage provider > 0 \<and> available_storage provider > 0 \<and>
      price_per_gb provider > 0 \<and> wallet_address provider \<noteq> [])"

definition getActiveProviders_of :: "provider_row list answer \<Rightarrow> string + provider_row list" where
  "getActiveProviders_of a =
     (case error a of
        Some e \<Rightarrow> Inl e
      | None \<Rightarrow> Inr (case data a of None \<Rightarrow> [] | Some rows \<Rightarrow> filter valid_provider rows))"

definition getActiveProviders :: "int \<Rightarrow> provider_row list \<Rightarrow> string + provider_row list" where
  "getActiveProviders now table =
     getActiveProviders_of (Answer (Some (select_providers (fiveMinutesAgo now) table)) None)"

text \<open>
  The filter in the words of the specification: active, heartbeat within five minutes,
  allocated, available and price above zero.
\<close>

definition listed_by_spec :: "int \<Rightarrow> provider_row \<Rightarrow> bool" where
  "listed_by_spec now r =
     (is_active r = Some True \<and>
      (case last_updated r of None \<Rightarrow> False | Some t \<Rightarrow> now - 5 * 60 * 1000 \<le> t) \<and>
      allocated_storage r > 0 \<and> available_storage r > 0 \<and> price_per_gb r > 0)"

text \<open>Two rows: a provider whose wallet address is empty, and one with no space left.\<close>

definition row_without_wallet :: provider_row where
  "row_without_wallet =
     \<lparr>provider_id = ''p1'', wallet_address = [], allocated_storage = 10, price_per_gb = 10,
      is_active = Some True, total_storage = 100, available_storage = 5,
      last_updated = Some 1000000\<rparr>"

definition row_full :: provider_row where
  "row_full =
     \<lparr>provider_id = ''p2'', wallet_address = ''0xCCccCCccCCccCCccCCccCCccCCccCCccCCccCCcc'',
      allocated_storage = 10, price_per_gb = 10, is_active = Some True, total_storage = 100,
      available_storage = 0, last_updated = Some 1000000\<rparr>"

definition row_listed :: provider_row where
  "row_listed =
     \<lparr>provider_id = ''p3'', wallet_address = ''0xDDddDDddDDddDDddDDddDDddDDddDDddDDddDDdd'',
      allocated_storage = 10, price_per_gb = 10, is_active = Some True, total_storage = 100,
      available_storage = 4, last_updated = Some 1000001\<rparr>"

section \<open>Provider registration: startProvider\<close>

text \<open>
  \<^verbatim>\<open>checkAvailableStorage\<close> runs \<^verbatim>\<open>wmic logicaldisk get freespace,caption\<close> and
  sums, over the lines after the header, the free space of each drive in whole GB.
  \<open>line_fields\<close> is \<^verbatim>\<open>line.trim().split(/\s+/)\<close> (an empty line has no field that counts),
  \<open>parseInt\<close> is JavaScript's: leading white space, a sign, \<^verbatim>\<open>0x\<close> for
  hexadecimal, then the longest run of digits; \<open>None\<close> is \<^verbatim>\<open>NaN\<close>. Numbers are
  whole numbers below \<open>2^53\<close>, where JavaScript's arithmetic on them is exact.
\<close>

definition is_space :: "char \<Rightarrow> bool" where
  "is_space c = ((of_char c :: nat) \<in> {9, 10, 11, 12, 13, 32})"

fun split_whitespace :: "string \<Rightarrow> string \<Rightarrow> string list" where
  "split_whitespace cur [] = (if cur = [] then [] else [cur])"
| "split_whitespace cur (c # cs) =
     (if is_space c then (if cur = [] then [] else [cur]) @ split_whitespace [] cs
      else split_whitespace (cur @ [c]) cs)"

definition line_fields :: "string \<Rightarrow> string list" where
  "line_fields line = split_whitespace [] line"

definition digit_of :: "char \<Rightarrow> nat option" where
  "digit_of c =
     map_of (zip ''0123456789abcdefABCDEF''
                 [0, 1, 2, 3, 4, 5, 6, 7, 8, 9, 10, 11, 12, 13, 14, 15, 10, 11, 12, 13, 14, 15]) c"

definition is_digit :: "nat \<Rightarrow> char \<Rightarrow> bool" where
  "is_digit radix c = (case digit_of c of None \<Rightarrow> False | Some d \<Rightarrow> d < radix)"

definition number_of :: "nat \<Rightarrow> string \<Rightarrow> nat" where
  "number_of radix ds = foldl (\<lambda>n c. n * radix + the (digit_of c)) 0 ds"

definition parseInt :: "string \<Rightarrow> int option" where
  "parseInt str =
     (let s1 = dropWhile is_space str;
          negative = (case s1 of c # _ \<Rightarrow> c = CHR ''-'' | [] \<Rightarrow> False);
          s2 = (case s1 of c # r \<Rightarrow> if c = CHR ''-'' \<or> c = CHR ''+'' then r else s1
                | [] \<Rightarrow> s1);
          hex = (case s2 of c # x # _ \<Rightarrow> c = CHR ''0'' \<and> (x = CHR ''x'' \<or> x = CHR ''X'')
                 | _ \<Rightarrow> False);
          radix = (if hex then 16 else 10);
          ds = takeWhile (is_digit radix) (if hex then drop 2 s2 else s2)
      in if ds = [] then None
         else Some ((if negative then - 1 else 1) * int (number_of radix ds)))"

text \<open>
  What \<^verbatim>\<open>execAsync\<close> gives: it throws, or the standard output, given as
  \<^verbatim>\<open>stdout.trim().split('\n')\<close>.
\<close>

datatype exec_answer = ExecFailed | ExecStdout "string list"

definition add_drive :: "int option \<Rightarrow> string \<Rightarrow> int option" where
  "add_drive totalFreeGB line =
     (case line_fields line of
        drive # freeSpace # _ \<Rightarrow>
          (case (totalFreeGB, parseInt freeSpace) of
             (Some sum_gb, Some free) \<Rightarrow> Some (sum_gb + free div (1024 * 1024 * 1024))
           | _ \<Rightarrow> None)
      | _ \<Rightarrow> totalFreeGB)"

definition checkAvailableStorage :: "exec_answer \<Rightarrow> int option" where
  "checkAvailableStorage a =
     (case a of
        ExecFailed \<Rightarrow> Some 0
      | ExecStdout lines \<Rightarrow> foldl add_drive (Some 0) (drop 1 lines))"

text \<open>\<^verbatim>\<open>Math.min\<close>: \<^verbatim>\<open>NaN\<close> when an argument is.\<close>

definition Math_min :: "int option \<Rightarrow> int option \<Rightarrow> int option" where
  "Math_min a b = (case (a, b) of (Some x, Some y) \<Rightarrow> Some (min x y) | _ \<Rightarrow> None)"

text \<open>
  \<^verbatim>\<open>web3.utils.toWei(n.toString(), 'ether')\<close> is \<open>n \<times> 10^18\<close>; it throws on
  \<^verbatim>\<open>NaN\<close>. The contract's parameter is a \<^verbatim>\<open>uint256\<close>: a number that is
  negative or \<open>2^256\<close> or more cannot be sent.
\<close>

definition toWei_ether :: "int \<Rightarrow> int" where
  "toWei_ether n = n * 10 ^ 18"

definition as_uint256 :: "int \<Rightarrow> uint256 option" where
  "as_uint256 n = (if 0 \<le> n \<and> n < 2 ^ 256 then Some (word_of_int n) else None)"

text \<open>
  The index's \<^verbatim>\<open>providers\<close> table under \<^verbatim>\<open>createProvider\<close> (an insert:
  \<^verbatim>\<open>provider_id\<close> is the primary key, \<^verbatim>\<open>wallet_address\<close> is unique) and under
  \<^verbatim>\<open>updateProviderStorage\<close> as \<^verbatim>\<open>startProvider\<close> calls it on a duplicate key:
  with \<^verbatim>\<open>allocated\<close> and \<^verbatim>\<open>available\<close>, no price (the column is left as it
  is) and no \<^verbatim>\<open>is_active\<close> (it becomes true).
\<close>

datatype insert_error = providers_pkey | providers_wallet_address_key

definition createProvider :: "provider_row \<Rightarrow> provider_row list \<Rightarrow> insert_error + provider_row list" where
  "createProvider row table =
     (if list_ex (\<lambda>r. provider_id r = provider_id row) table then Inl providers_pkey
      else if list_ex (\<lambda>r. wallet_address r = wallet_address row) table
      then Inl providers_wallet_address_key
      else Inr (table @ [row]))"

definition updateProviderStorage ::
  "string \<Rightarrow> rat \<Rightarrow> rat \<Rightarrow> int \<Rightarrow> provider_row list \<Rightarrow> provider_row list"
where
  "updateProviderStorage providerId allocated available now table =
     map (\<lambda>r. if provider_id r = providerId
               then r\<lparr>allocated_storage := allocated, available_storage := available,
                      is_active := Some True, last_updated := Some now\<rparr>
               else r) table"

text \<open>
  The registration step of \<^verbatim>\<open>startProvider\<close> (the \<^verbatim>\<open>try\<close> block that
  registers on the ledger and then in the index). \<open>answers_storage\<close> is what the
  operator typed, \<open>provider_tx\<close> the transaction the wallet sends (its sender is the
  wallet's address), \<open>providerId\<close> the identifier derived from the address. Any
  exception in the block ends it with 'Provider registration failed'.
\<close>

record provider_world = client_session +
  answers_storage :: string
  wmic_answer :: exec_answer
  providerId :: string
  provider_tx :: tx_env
  time_now :: int

datatype register_outcome = ProviderRegisteredOk | ProviderUpdatedOk | RegistrationFailed

definition verifiedStorage :: "provider_world \<Rightarrow> int option" where
  "verifiedStorage w =
     Math_min (parseInt (answers_storage w)) (checkAvailableStorage (wmic_answer w))"

definition startProvider_register ::
  "provider_world \<Rightarrow> StorageContract \<Rightarrow> provider_row list
     \<Rightarrow> register_outcome \<times> StorageContract \<times> provider_row list"
where
  "startProvider_register w s table =
     (case (checkAvailableStorage (wmic_answer w), verifiedStorage w) of
        (Some availableStorage, Some verified) \<Rightarrow>
          (case (as_uint256 (toWei_ether verified), as_uint256 (toWei_ether 10)) of
             (Some amount, Some price) \<Rightarrow>
               (case registerProvider (provider_tx w) amount price s of
                  Inl _ \<Rightarrow> (RegistrationFailed, s, table)
                | Inr (s', _) \<Rightarrow>
                    (case createProvider
                            \<lparr>provider_id = providerId w, wallet_address = walletAddress w,
                             allocated_storage = of_int verified, price_per_gb = 10,
                             is_active = Some True, total_storage = of_int availableStorage,
                             available_storage = of_int availableStorage,
                             last_updated = Some (time_now w)\<rparr> table of
                       Inr table' \<Rightarrow> (ProviderRegisteredOk, s', table')
                     | Inl providers_pkey \<Rightarrow>
                         (ProviderUpdatedOk, s',
                          updateProviderStorage (providerId w) (of_int verified)
                            (of_int availableStorage) (time_now w) table)
                     | Inl _ \<Rightarrow> (RegistrationFailed, s', table)))
           | _ \<Rightarrow> (RegistrationFailed, s, table))
      | _ \<Rightarrow> (RegistrationFailed, s, table))"

text \<open>
  Two starts of the provider whose wallet has the address \<open>1\<close>: one on a machine where
  the disk check fails, one where it reports a drive with 50 GB free. The operator asks
  for 80 GB.
\<close>

definition provider_on_failed_check :: provider_world where
  "provider_on_failed_check =
     \<lparr>privateKey = ''0x1'', walletAddress = ''0x0000000000000000000000000000000000000001'',
      CryptoJS = no_library, answers_storage = ''80'', wmic_answer = ExecFailed,
      providerId = ''1a2b3c4d'', provider_tx = example_tx 1, time_now = 1200000\<rparr>"

definition provider_on_50GB :: provider_world where
  "provider_on_50GB =
     provider_on_failed_check
       \<lparr>wmic_answer := ExecStdout [''Caption  FreeSpace'', ''C:       53687091200'', ''D:'']\<rparr>"

section \<open>The credential store: savePrivateKey and loadPrivateKey\<close>

text \<open>
  The keystore is one file, \<^verbatim>\<open>.keystore\<close> in the working directory. The file
  system is the map from paths to contents, and whether a write succeeds
  (\<^verbatim>\<open>fs.writeFileSync\<close> throws otherwise). \<^verbatim>\<open>savePrivateKey\<close> returns
  \<^verbatim>\<open>true\<close>, or \<^verbatim>\<open>false\<close> when the write threw; \<^verbatim>\<open>loadPrivateKey\<close>
  returns the key, or \<^verbatim>\<open>null\<close> (\<open>None\<close>) when there is no file or something threw.
\<close>

record filesystem =
  files :: "string \<rightharpoonup> string"
  writable :: bool

definition KEYSTORE_FILE :: string where
  "KEYSTORE_FILE = ''.keystore''"

definition ENCRYPTION_KEY :: string where
  "ENCRYPTION_KEY = ''depin-storage-secure-key''"

definition savePrivateKey :: "cryptojs \<Rightarrow> nat \<Rightarrow> string \<Rightarrow> filesystem \<Rightarrow> bool \<times> filesystem" where
  "savePrivateKey lib seed key fs =
     (let encrypted = AES_encrypt_passphrase lib key ENCRYPTION_KEY seed
      in if writable fs then (True, fs\<lparr>files := (files fs)(KEYSTORE_FILE \<mapsto> encrypted)\<rparr>)
         else (False, fs))"

definition loadPrivateKey :: "cryptojs \<Rightarrow> filesystem \<Rightarrow> string option" where
  "loadPrivateKey lib fs =
     (case files fs KEYSTORE_FILE of
        None \<Rightarrow> None
      | Some encrypted \<Rightarrow> AES_decrypt_passphrase lib encrypted ENCRYPTION_KEY)"

text \<open>
  What the library promises for a passphrase: decrypting, with the passphrase, a text
  that was encrypted with it gives back the message.
\<close>

definition decrypts_own_output :: "cryptojs \<Rightarrow> string \<Rightarrow> bool" where
  "decrypts_own_output lib passphrase =
     (\<forall>message seed.
        AES_decrypt_passphrase lib (AES_encrypt_passphrase lib message passphrase seed) passphrase
          = Some message)"

definition empty_disk :: filesystem where
  "empty_disk = \<lparr>files = Map.empty, writable = True\<rparr>"

section \<open>Proofs\<close>

subsection \<open>Aborting steps\<close>

lemma and_then_Inr:
  "and_then r f = Inr y \<longleftrightarrow> (\<exists>x. r = Inr x \<and> f x = Inr y)"
  by (cases r) (simp_all add: and_then_def)

lemma require_Inr: "require c msg = Inr u \<longleftrightarrow> c"
  by (simp add: require_def)

lemma checked_add_Inr:
  "checked_add a b = Inr c \<longleftrightarrow> unat a + unat b < 2 ^ 256 \<and> c = a + b"
  by (auto simp: checked_add_def)

lemma checked_sub_Inr: "checked_sub a b = Inr c \<longleftrightarrow> b \<le> a \<and> c = a - b"
  by (auto simp: checked_sub_def)

lemma checked_mul_Inr:
  "checked_mul a b = Inr c \<longleftrightarrow> unat a * unat b < 2 ^ 256 \<and> c = a * b"
  by (auto simp: checked_mul_def)

lemma checked_div_Inr: "checked_div a b = Inr c \<longleftrightarrow> b \<noteq> 0 \<and> c = a div b"
  by (auto simp: checked_div_def)

lemma unat_checked_sum:
  fixes a b :: uint256
  assumes "unat a + unat b < 2 ^ 256"
  shows "unat (a + b) = unat a + unat b"
  using assms by (simp add: unat_add_lem [THEN iffD1])

lemma unat_checked_product:
  fixes a b :: uint256
  assumes "unat a * unat b < 2 ^ 256"
  shows "unat (a * b) = unat a * unat b"
  using assms by (simp add: unat_mult_lem [THEN iffD1])

subsection \<open>The capacity invariant under purchaseStorage and storeFile\<close>

lemma purchaseStorage_preserves:
  assumes inv: "client_within_allocation s" "provider_within_allocation s"
    and ok: "purchaseStorage e p n s = Inr (s', fx)"
  shows "client_within_allocation s' \<and> provider_within_allocation s'"
proof -
  let ?P = "providers s p"
  let ?C = "clientStorages ?P (msg_sender e)"
  from ok obtain payment where
        sub: "usedStorage ?P \<le> allocatedStorage ?P"
    and free: "n \<le> allocatedStorage ?P - usedStorage ?P"
    and a: "unat (allocatedSpace ?C) + unat n < 2 ^ 256"
    and u: "unat (usedStorage ?P) + unat n < 2 ^ 256"
    and s': "s' = s\<lparr>providers := (providers s)(p := ?P\<lparr>
               clients := (if allocatedSpace ?C = 0 then clients ?P @ [msg_sender e] else clients ?P),
               clientStorages := (clientStorages ?P)(msg_sender e := ?C\<lparr>
                  allocatedSpace := allocatedSpace ?C + n,
                  paymentAmount := paymentAmount ?C + payment,
                  lastPaymentTime := block_timestamp e\<rparr>),
               usedStorage := usedStorage ?P + n\<rparr>)\<rparr>"
    by (auto simp: purchaseStorage_def Let_def and_then_Inr require_Inr checked_add_Inr
        checked_sub_Inr checked_mul_Inr)
  have prov: "usedStorage ?P + n \<le> allocatedStorage ?P"
    using sub free u by (simp add: word_le_nat_alt unat_checked_sum unat_sub)
  have cl: "usedSpace ?C \<le> allocatedSpace ?C + n"
  proof -
    have "usedSpace ?C \<le> allocatedSpace ?C"
      using inv(1) by (simp add: client_within_allocation_def)
    then show ?thesis using a by (simp add: word_le_nat_alt unat_checked_sum)
  qed
  have "client_within_allocation s'"
    using inv(1) cl unfolding client_within_allocation_def s' by auto
  moreover have "provider_within_allocation s'"
    using inv(2) prov unfolding provider_within_allocation_def s' by simp
  ultimately show ?thesis by simp
qed

lemma storeFile_preserves:
  assumes inv: "client_within_allocation s" "provider_within_allocation s"
    and ok: "storeFile e p c sz s = Inr (s', fx)"
  shows "client_within_allocation s' \<and> provider_within_allocation s'"
proof -
  let ?P = "providers s p"
  let ?C = "clientStorages ?P (msg_sender e)"
  from ok obtain gb where
        fit: "usedSpace ?C + gb \<le> allocatedSpace ?C"
    and s': "s' = s\<lparr>providers := (providers s)(p := ?P\<lparr>
               clientStorages := (clientStorages ?P)(msg_sender e := ?C\<lparr>
                  storedFileCIDs := storedFileCIDs ?C @ [c],
                  fileSizes := (fileSizes ?C)(c := sz),
                  usedSpace := usedSpace ?C + gb\<rparr>)\<rparr>),
               cidToProvider := (cidToProvider s)(c := p)\<rparr>"
    by (auto simp: storeFile_def Let_def and_then_Inr require_Inr checked_add_Inr)
  have "client_within_allocation s'"
    using inv(1) fit unfolding client_within_allocation_def s' by simp
  moreover have "provider_within_allocation s'"
    using inv(2) unfolding provider_within_allocation_def s' by simp
  ultimately show ?thesis by simp
qed

lemma example_ledger_within:
  "client_within_allocation example_ledger \<and> provider_within_allocation example_ledger"
  by (simp add: client_within_allocation_def provider_within_allocation_def
      example_ledger_def empty_Provider_def empty_ClientStorage_def)

text \<open>
  C4. From a ledger state in which every client's used space is at most its allocated
  space and every provider's used storage is at most its allocated storage, a
  \<^verbatim>\<open>purchaseStorage\<close> call and a \<^verbatim>\<open>storeFile\<close> call that do not abort
  lead to a state in which both still hold, for every provider and every client.
\<close>

theorem capacity_invariant_preserved:
  assumes "client_within_allocation s" and "provider_within_allocation s"
    and "purchaseStorage e p n s = Inr (s', fx) \<or> storeFile e p c sz s = Inr (s', fx)"
  shows "client_within_allocation s' \<and> provider_within_allocation s'"
  using assms purchaseStorage_preserves storeFile_preserves by blast

theorem capacity_invariant_preserved_witness:
  "client_within_allocation example_ledger \<and> provider_within_allocation example_ledger \<and>
   (\<exists>s' fx. purchaseStorage (example_tx 2) 1 30 example_ledger = Inr (s', fx) \<and>
      usedStorage (providers s' 1) = 80 \<and>
      allocatedSpace (clientStorages (providers s' 1) 2) = 30 \<and>
      client_within_allocation s' \<and> provider_within_allocation s')"
proof -
  obtain s' fx where run: "purchaseStorage (example_tx 2) 1 30 example_ledger = Inr (s', fx)"
    and used: "usedStorage (providers s' 1) = 80"
    and alloc: "allocatedSpace (clientStorages (providers s' 1) 2) = 30"
    by (simp add: purchaseStorage_def example_tx_def example_ledger_def Let_def and_then_def
        require_def checked_add_def checked_sub_def checked_mul_def empty_ClientStorage_def)
  from capacity_invariant_preserved [of example_ledger "example_tx 2" 1 30 s' fx]
    example_ledger_within run
  have "client_within_allocation s' \<and> provider_within_allocation s'" by simp
  with example_ledger_within run used alloc show ?thesis by blast
qed

subsection \<open>getFileDetails on an unknown content address\<close>

lemma registerProvider_cids:
  "registerProvider e a b s = Inr (s', fx) \<Longrightarrow>
     cidToProvider s' = cidToProvider s \<and> \<not> list_ex (records_file c) fx"
  by (auto simp: registerProvider_def Let_def and_then_Inr require_Inr)

lemma purchaseStorage_cids:
  "purchaseStorage e p a s = Inr (s', fx) \<Longrightarrow> cidToProvider s' = cidToProvider s"
  by (auto simp: purchaseStorage_def Let_def and_then_Inr require_Inr)

lemma distributeMiningRewards_cids:
  "distributeMiningRewards e s = Inr (s', fx) \<Longrightarrow> cidToProvider s' = cidToProvider s"
  by (auto simp: distributeMiningRewards_def Let_def and_then_Inr require_Inr)

lemma storeFile_cids:
  "storeFile e p c sz s = Inr (s', fx) \<Longrightarrow>
     cidToProvider s' = (cidToProvider s)(c := p) \<and> fx = [FileStored (msg_sender e) p c]"
  by (auto simp: storeFile_def Let_def and_then_Inr require_Inr)

lemma ledger_run_known:
  "ledger_run evs s \<Longrightarrow> cidToProvider s c \<noteq> 0 \<Longrightarrow> known_to_ledger evs c"
proof (induction rule: ledger_run.induct)
  case deployed
  then show ?case by (simp add: empty_StorageContract_def)
next
  case (registered evs s e amount price s' fx)
  then show ?case
    by (auto simp: known_to_ledger_def dest: registerProvider_cids)
next
  case (purchased evs s e p amount s' fx)
  then show ?case
    by (auto simp: known_to_ledger_def dest: purchaseStorage_cids)
next
  case (stored evs s e p c' size' s' fx)
  then show ?case
    by (auto simp: known_to_ledger_def dest!: storeFile_cids split: if_splits)
next
  case (rewarded evs s e s' fx)
  then show ?case
    by (auto simp: known_to_ledger_def dest: distributeMiningRewards_cids)
qed

lemma getFileDetails_unknown:
  "cidToProvider s c = 0 \<Longrightarrow> getFileDetails s c = Inl (Revert ''File not found'')"
  by (simp add: getFileDetails_def and_then_def require_def)

lemma getFileDetails_returns_nonzero:
  "getFileDetails s c = Inr (p, owner, sz) \<Longrightarrow> owner \<noteq> 0 \<and> p \<noteq> 0"
  by (auto simp: getFileDetails_def Let_def and_then_Inr require_Inr)

text \<open>
  C5, as the claim states it, fails: on the freshly deployed contract, which knows no
  content address, \<^verbatim>\<open>getFileDetails\<close> aborts with 'File not found'; it returns
  no result, so none with a zero owner.
\<close>

theorem getFileDetails_unknown_counterexample:
  "ledger_run [] empty_StorageContract \<and> \<not> known_to_ledger [] ''QmUnknown'' \<and>
   getFileDetails empty_StorageContract ''QmUnknown'' = Inl (Revert ''File not found'') \<and>
   \<not> (\<exists>p sz. getFileDetails empty_StorageContract ''QmUnknown'' = Inr (p, 0, sz))"
proof -
  have "getFileDetails empty_StorageContract ''QmUnknown'' = Inl (Revert ''File not found'')"
    by (simp add: getFileDetails_def empty_StorageContract_def and_then_def require_def)
  then show ?thesis
    by (simp add: ledger_run.deployed known_to_ledger_def)
qed

text \<open>
  C5, amended. For every state the ledger reaches and every content address that no
  \<^verbatim>\<open>storeFile\<close> call has recorded, \<^verbatim>\<open>getFileDetails\<close> aborts with
  'File not found'. And whenever \<^verbatim>\<open>getFileDetails\<close> returns, in any state, neither
  the owner nor the provider of its result is the zero address: the zero-owner sentinel
  is never returned.
\<close>

theorem getFileDetails_unknown_aborts:
  "(ledger_run evs s \<and> \<not> known_to_ledger evs c
      \<longrightarrow> getFileDetails s c = Inl (Revert ''File not found'')) \<and>
   (getFileDetails s' c' = Inr (p, owner, sz) \<longrightarrow> owner \<noteq> 0 \<and> p \<noteq> 0)"
  using ledger_run_known getFileDetails_unknown getFileDetails_returns_nonzero by blast


theorem getFileDetails_unknown_aborts_witness:
  "ledger_run [] empty_StorageContract \<and> \<not> known_to_ledger [] ''QmB'' \<and>
   getFileDetails empty_StorageContract ''QmB'' = Inl (Revert ''File not found'') \<and>
   getFileDetails stored_ledger ''QmA'' = Inr (1, 2, 500) \<and>
   (2 :: address) \<noteq> 0 \<and> (1 :: address) \<noteq> 0"
proof -
  have run: "ledger_run [] empty_StorageContract \<and> \<not> known_to_ledger [] ''QmB''"
    by (simp add: ledger_run.deployed known_to_ledger_def)
  have ret: "getFileDetails stored_ledger ''QmA'' = Inr (1, 2, 500)"
    by (simp add: getFileDetails_def stored_ledger_def Let_def and_then_def require_def)
  from getFileDetails_unknown_aborts
         [of "[]" empty_StorageContract "''QmB''" stored_ledger "''QmA''" 1 2 500] run ret
  show ?thesis by simp
qed

subsection \<open>distributeMiningRewards\<close>

lemma reward_amount:
  fixes used alloc :: uint256
  assumes small: "unat used * 10 ^ 20 < 2 ^ 256"
  defines "rate \<equiv> unat used * 100 div unat alloc"
  shows "unat used * unat (100 :: uint256) < 2 ^ 256"
    and "unat (used * 100 div alloc) = rate"
    and "unat (used * 100 div alloc) * unat (1000000000000000000 :: uint256) < 2 ^ 256"
    and "unat (used * 100 div alloc * 1000000000000000000 div 100) = rate * 10 ^ 16"
proof -
  show 1: "unat used * unat (100 :: uint256) < 2 ^ 256" using small by simp
  show 2: "unat (used * 100 div alloc) = rate"
    using 1 by (simp add: unat_div unat_checked_product rate_def)
  have "rate \<le> unat used * 100" unfolding rate_def by (rule div_le_dividend)
  then have "rate * 10 ^ 18 \<le> unat used * 100 * 10 ^ 18" by simp
  also have "\<dots> = unat used * 10 ^ 20" by simp
  finally have 3: "rate * 10 ^ 18 < 2 ^ 256" using small by simp
  show 4: "unat (used * 100 div alloc) * unat (1000000000000000000 :: uint256) < 2 ^ 256"
    using 3 by (simp add: 2)
  have "unat (used * 100 div alloc * 1000000000000000000) = rate * 10 ^ 18"
    using 4 2 by (simp add: unat_checked_product)
  then show "unat (used * 100 div alloc * 1000000000000000000 div 100) = rate * 10 ^ 16"
    by (simp add: unat_div)
qed

lemma reward_word:
  fixes used alloc :: uint256
  assumes "unat used * 10 ^ 20 < 2 ^ 256"
  shows "used * 100 div alloc * 1000000000000000000 div 100 =
         word_of_nat (utilization_reward (unat used) (unat alloc))"
proof -
  have "unat (used * 100 div alloc * 1000000000000000000 div 100) =
        utilization_reward (unat used) (unat alloc)"
    using reward_amount(4) [OF assms] by (simp add: utilization_reward_def)
  then have "word_of_nat (unat (used * 100 div alloc * 1000000000000000000 div 100)) =
             (word_of_nat (utilization_reward (unat used) (unat alloc)) :: uint256)"
    by simp
  then show ?thesis by simp
qed

lemma utilization_reward_bounds:
  assumes "0 < allocated"
  shows "utilization_reward used allocated * allocated \<le> 10 ^ 18 * used"
    and "10 ^ 18 * used < (utilization_reward used allocated + 10 ^ 16) * allocated"
proof -
  let ?q = "used * 100 div allocated"
  have lo: "?q * allocated \<le> used * 100" by (rule div_times_less_eq_dividend)
  have hi: "used * 100 < (?q + 1) * allocated"
    using assms by (metis Suc_eq_plus1 dividend_less_div_times mult.commute mult_Suc)
  have "utilization_reward used allocated * allocated = 10 ^ 16 * (?q * allocated)"
    by (simp add: utilization_reward_def)
  also have "\<dots> \<le> 10 ^ 16 * (used * 100)" using lo by (rule mult_le_mono2)
  also have "\<dots> = 10 ^ 18 * used" by simp
  finally show "utilization_reward used allocated * allocated \<le> 10 ^ 18 * used" .
  have "(10 ^ 18 :: nat) * used = 10 ^ 16 * (used * 100)" by simp
  also have "\<dots> < 10 ^ 16 * ((?q + 1) * allocated)"
    using hi by (rule mult_less_mono2) simp
  also have "\<dots> = (utilization_reward used allocated + 10 ^ 16) * allocated"
    by (simp add: utilization_reward_def algebra_simps)
  finally show "10 ^ 18 * used < (utilization_reward used allocated + 10 ^ 16) * allocated" .
qed

text \<open>
  C7. For an active provider whose allocated capacity is not zero (and whose used
  capacity is below \<open>2^256 / 10^20\<close>, so that the contract's checked products do not
  overflow), an invocation of \<^verbatim>\<open>distributeMiningRewards\<close> by that provider asks the
  token to transfer to the provider \<open>(used \<times> 100 div allocated)\<close> reward units of
  \<open>10^16\<close>, and succeeds, leaving the ledger unchanged and emitting \<open>MiningReward\<close>
  with that amount, exactly when the token transfer succeeds. The amount is the
  proportion \<open>(used / allocated) \<times> 100\<close> in whole reward units: it is within one
  unit below \<open>10^18 \<times> used / allocated\<close>.
\<close>

theorem distributeMiningRewards_pays_utilization:
  assumes "isActive (providers s (msg_sender e))"
    and "allocatedStorage (providers s (msg_sender e)) \<noteq> 0"
    and "unat (usedStorage (providers s (msg_sender e))) * 10 ^ 20 < 2 ^ 256"
  defines "used \<equiv> unat (usedStorage (providers s (msg_sender e)))"
    and "allocated \<equiv> unat (allocatedStorage (providers s (msg_sender e)))"
  shows "distributeMiningRewards e s =
           (case aaiToken_transfer e (msg_sender e)
                   (word_of_nat (utilization_reward used allocated)) of
              Inl abort \<Rightarrow> Inl abort
            | Inr sent \<Rightarrow>
                if sent
                then Inr (s, [TokenTransfer (msg_sender e)
                                (word_of_nat (utilization_reward used allocated)),
                              MiningReward (msg_sender e)
                                (word_of_nat (utilization_reward used allocated))])
                else Inl (Revert ''Reward transfer failed'')) \<and>
         utilization_reward used allocated < 2 ^ 256 \<and>
         utilization_reward used allocated * allocated \<le> 10 ^ 18 * used \<and>
         10 ^ 18 * used < (utilization_reward used allocated + 10 ^ 16) * allocated"
proof -
  let ?P = "providers s (msg_sender e)"
  have pos: "0 < allocated"
    using assms(2) by (simp add: allocated_def unat_gt_0)
  have call: "distributeMiningRewards e s =
           (case aaiToken_transfer e (msg_sender e)
                   (word_of_nat (utilization_reward used allocated)) of
              Inl abort \<Rightarrow> Inl abort
            | Inr sent \<Rightarrow>
                if sent
                then Inr (s, [TokenTransfer (msg_sender e)
                                (word_of_nat (utilization_reward used allocated)),
                              MiningReward (msg_sender e)
                                (word_of_nat (utilization_reward used allocated))])
                else Inl (Revert ''Reward transfer failed''))"
    using assms(1,2) reward_amount(1,3) [OF assms(3)]
      reward_word [OF assms(3), of "allocatedStorage ?P"]
    by (simp add: distributeMiningRewards_def Let_def and_then_def require_def
        checked_mul_def checked_div_def used_def allocated_def split: sum.splits)
  have "utilization_reward used allocated =
        unat (usedStorage ?P * 100 div allocatedStorage ?P * 1000000000000000000 div 100)"
    using reward_amount(4) [OF assms(3), of "allocatedStorage ?P"]
    by (simp add: utilization_reward_def used_def allocated_def)
  moreover have "unat w < 2 ^ 256" for w :: uint256
    using unsigned_less [of w] by simp
  ultimately have fits: "utilization_reward used allocated < 2 ^ 256"
    by simp
  from call fits utilization_reward_bounds [OF pos] show ?thesis
    by blast
qed

theorem distributeMiningRewards_pays_utilization_witness:
  "isActive (providers example_ledger 1) \<and>
   allocatedStorage (providers example_ledger 1) = 200 \<and>
   usedStorage (providers example_ledger 1) = 50 \<and>
   distributeMiningRewards (example_tx 1) example_ledger =
     Inr (example_ledger, [TokenTransfer 1 250000000000000000,
                           MiningReward 1 250000000000000000])"
proof -
  have facts: "isActive (providers example_ledger (msg_sender (example_tx 1)))"
    "allocatedStorage (providers example_ledger (msg_sender (example_tx 1))) \<noteq> 0"
    "unat (usedStorage (providers example_ledger (msg_sender (example_tx 1)))) * 10 ^ 20 < 2 ^ 256"
    by (simp_all add: example_ledger_def example_tx_def)
  have amount: "utilization_reward 50 200 = 250000000000000000"
    by (simp add: utilization_reward_def)
  from distributeMiningRewards_pays_utilization [OF facts] amount
  show ?thesis
    by (simp add: example_ledger_def example_tx_def)
qed

subsection \<open>The ledger checks of downloadFile\<close>










subsection \<open>A download of somebody else's file\<close>







subsection \<open>The size accounting rule\<close>









subsection \<open>Upload, then download\<close>

lemma Buffer_toString_replacement:
  "Buffer_toString [0xFF] = [0xFFFD] \<and> Buffer_toString [0xEF, 0xBF, 0xBD] = [0xFFFD]"
  by (simp add: Buffer_toString_def utf8_lead_def)

lemma encrypt_file_collapses:
  "encrypt_file (u\<lparr>upload_file := [0xFF]\<rparr>) = encrypt_file (u\<lparr>upload_file := [0xEF, 0xBF, 0xBD]\<rparr>)"
  by (simp add: encrypt_file_def Buffer_toString_replacement)

lemma written_download_of_upload:
  "written (snd (downloadFile (download_of_upload u path))) =
     (if falsy (Some (walletAddress u)) \<or> walletAddress u = zero_address \<or>
         falsy (Some (provider_address u)) \<or> provider_address u = zero_address \<or>
         WordArray_toString (random_salt u) = []
      then None
      else AES_decrypt (CryptoJS u) (string_bytes (encrypt_file u))
             (WordArray (PBKDF2 (CryptoJS u) (Str (walletAddress u @ privateKey u))
                           (Str (WordArray_toString (random_salt u))))))"
  by (simp add: downloadFile_def debugIPFSConnection_def verify_ownership_def
      fetch_and_decrypt_def download_of_upload_def uploaded_row_def Let_def
      split: option.splits)

text \<open>
  C1, the round trip, fails on the code. The upload encrypts \<^verbatim>\<open>file.toString()\<close>,
  the file decoded as UTF-8, so the one-byte file \<open>FF\<close> and the three-byte file
  \<open>EF BF BD\<close> give the same ciphertext, whatever the library, the wallet and the random
  numbers are; the download of either writes the same bytes, so it does not reproduce
  both files.
\<close>

theorem upload_download_not_roundtrip:
  "encrypt_file (u\<lparr>upload_file := [0xFF]\<rparr>) =
     encrypt_file (u\<lparr>upload_file := [0xEF, 0xBF, 0xBD]\<rparr>) \<and>
   written (snd (downloadFile (download_of_upload (u\<lparr>upload_file := [0xFF]\<rparr>) path))) =
     written (snd (downloadFile
        (download_of_upload (u\<lparr>upload_file := [0xEF, 0xBF, 0xBD]\<rparr>) path))) \<and>
   \<not> (written (snd (downloadFile (download_of_upload (u\<lparr>upload_file := [0xFF]\<rparr>) path)))
          = Some (upload_file (u\<lparr>upload_file := [0xFF]\<rparr>)) \<and>
       written (snd (downloadFile
          (download_of_upload (u\<lparr>upload_file := [0xEF, 0xBF, 0xBD]\<rparr>) path)))
          = Some (upload_file (u\<lparr>upload_file := [0xEF, 0xBF, 0xBD]\<rparr>)))"
proof -
  have same: "written (snd (downloadFile (download_of_upload (u\<lparr>upload_file := [0xFF]\<rparr>) path))) =
     written (snd (downloadFile
        (download_of_upload (u\<lparr>upload_file := [0xEF, 0xBF, 0xBD]\<rparr>) path)))"
    by (simp add: written_download_of_upload encrypt_file_collapses)
  then show ?thesis
    by (auto simp: encrypt_file_collapses)
qed

subsection \<open>getActiveProviders\<close>

lemma listed_by_spec_split:
  "listed_by_spec now r \<and> wallet_address r \<noteq> [] \<longleftrightarrow>
     matches_query (fiveMinutesAgo now) r \<and> valid_provider r"
  by (auto simp: listed_by_spec_def matches_query_def valid_provider_def fiveMinutesAgo_def
      split: option.splits)

lemma getActiveProviders_composed:
  "getActiveProviders now table =
     Inr (filter valid_provider (select_providers (fiveMinutesAgo now) table))"
  by (simp add: getActiveProviders_def getActiveProviders_of_def)

lemma getActiveProviders_listing:
  "getActiveProviders now table =
     Inr (newest_first (filter (\<lambda>r. listed_by_spec now r \<and> wallet_address r \<noteq> []) table))"
proof -
  have "filter valid_provider (select_providers (fiveMinutesAgo now) table) =
        newest_first (filter valid_provider (filter (matches_query (fiveMinutesAgo now)) table))"
    by (simp add: select_providers_def newest_first_def filter_sort)
  also have "filter valid_provider (filter (matches_query (fiveMinutesAgo now)) table) =
             filter (\<lambda>r. listed_by_spec now r \<and> wallet_address r \<noteq> []) table"
    by (simp add: listed_by_spec_split conj_commute)
  finally show ?thesis by (simp add: getActiveProviders_composed)
qed

lemma newest_first_sorted:
  "sorted (map (\<lambda>r. - the (last_updated r)) (newest_first rows)) \<and>
   mset (newest_first rows) = mset rows"
  by (simp add: newest_first_def)

text \<open>
  C8, as the claim states it, fails twice. A provider that is active, fresh, and has
  allocated, available and price above zero, but an empty wallet address, is not
  returned. And a fresh active provider with no space available is in the server's
  answer: it is the client that drops it.
\<close>

theorem getActiveProviders_counterexample:
  "listed_by_spec 1200000 row_without_wallet \<and>
   getActiveProviders 1200000 [row_without_wallet] = Inr [] \<and>
   \<not> listed_by_spec 1200000 row_full \<and>
   select_providers (fiveMinutesAgo 1200000) [row_full] = [row_full]"
  by (simp add: listed_by_spec_def getActiveProviders_def getActiveProviders_of_def
      select_providers_def newest_first_def matches_query_def fiveMinutesAgo_def
      valid_provider_def row_without_wallet_def row_full_def)

text \<open>
  C8, amended. \<^verbatim>\<open>getActiveProviders\<close> returns exactly the providers that are active,
  have a heartbeat no older than five minutes, have allocated, available and price above
  zero, and have a wallet address, newest heartbeat first. The server filters on active
  and on the heartbeat and orders the rows; the four other conditions are applied by the
  client to the server's answer.
\<close>

theorem getActiveProviders_filter:
  "getActiveProviders now table =
     Inr (newest_first
            (filter (\<lambda>r. listed_by_spec now r \<and> wallet_address r \<noteq> []) table)) \<and>
   getActiveProviders now table =
     Inr (filter valid_provider (select_providers (fiveMinutesAgo now) table)) \<and>
   select_providers (fiveMinutesAgo now) table =
     newest_first (filter (matches_query (fiveMinutesAgo now)) table) \<and>
   sorted (map (\<lambda>r. - the (last_updated r)) (newest_first rows)) \<and>
   mset (newest_first rows) = mset rows"
  using getActiveProviders_listing [of now table] getActiveProviders_composed [of now table]
    newest_first_sorted [of rows]
  by (simp add: select_providers_def)

theorem getActiveProviders_filter_witness:
  "getActiveProviders 1200000 [row_without_wallet, row_full, row_listed] = Inr [row_listed] \<and>
   newest_first (filter (\<lambda>r. listed_by_spec 1200000 r \<and> wallet_address r \<noteq> [])
                  [row_without_wallet, row_full, row_listed]) = [row_listed] \<and>
   select_providers (fiveMinutesAgo 1200000) [row_without_wallet, row_full, row_listed] =
     [row_listed, row_without_wallet, row_full]"
proof -
  have listed: "newest_first (filter (\<lambda>r. listed_by_spec 1200000 r \<and> wallet_address r \<noteq> [])
                  [row_without_wallet, row_full, row_listed]) = [row_listed]"
    by (simp add: listed_by_spec_def newest_first_def row_without_wallet_def row_full_def
        row_listed_def)
  have server: "select_providers (fiveMinutesAgo 1200000)
                  [row_without_wallet, row_full, row_listed] =
                [row_listed, row_without_wallet, row_full]"
    by (simp add: select_providers_def newest_first_def matches_query_def fiveMinutesAgo_def
        row_without_wallet_def row_full_def row_listed_def)
  from getActiveProviders_filter [of 1200000 "[row_without_wallet, row_full, row_listed]"]
  have "getActiveProviders 1200000 [row_without_wallet, row_full, row_listed] =
          Inr (newest_first
                 (filter (\<lambda>r. listed_by_spec 1200000 r \<and> wallet_address r \<noteq> [])
                    [row_without_wallet, row_full, row_listed]))"
    by (rule conjunct1)
  with listed server show ?thesis by simp
qed

subsection \<open>The amount a provider registers\<close>

lemma checkAvailableStorage_failed: "checkAvailableStorage ExecFailed = Some 0"
  by (simp add: checkAvailableStorage_def)

lemma registerProvider_zero:
  "registerProvider e 0 price s = Inl (Revert ''Storage must be greater than 0'')"
  by (simp add: registerProvider_def and_then_def require_def)

lemma registerProvider_amount:
  "registerProvider e amount price s = Inr (s', fx) \<Longrightarrow>
     allocatedStorage (providers s' (msg_sender e)) = amount \<and> amount \<noteq> 0"
  by (auto simp: registerProvider_def Let_def and_then_Inr require_Inr)

lemma as_uint256_Some:
  "as_uint256 n = Some a \<Longrightarrow> 0 \<le> n \<and> unat a = nat n"
proof -
  assume h: "as_uint256 n = Some a"
  then have n: "0 \<le> n" "n < 2 ^ 256" and a: "a = word_of_int n"
    by (auto simp: as_uint256_def split: if_splits)
  have "uint a = n"
    unfolding a using n by (simp add: uint_word_of_int take_bit_int_eq_self)
  then have "unat a = nat n" by (simp add: unat_eq_nat_uint)
  with n show ?thesis by simp
qed

lemma startProvider_register_failed_check:
  assumes "wmic_answer w = ExecFailed" and "parseInt (answers_storage w) = Some requested"
    and "0 < requested"
  shows "verifiedStorage w = Some 0 \<and> startProvider_register w s table = (RegistrationFailed, s, table)"
proof -
  have v: "verifiedStorage w = Some 0"
    using assms by (simp add: verifiedStorage_def Math_min_def checkAvailableStorage_def)
  have "as_uint256 (toWei_ether 0) = Some 0"
    by (simp add: as_uint256_def toWei_ether_def)
  then show ?thesis
    using assms(1) v
    by (simp add: startProvider_register_def checkAvailableStorage_def registerProvider_zero
        split: option.splits)
qed

lemma price_as_uint256: "as_uint256 (toWei_ether 10) = Some 10000000000000000000"
  by (simp add: as_uint256_def toWei_ether_def)

lemma startProvider_register_steps:
  assumes "checkAvailableStorage (wmic_answer w) = Some available"
    and "verifiedStorage w = Some verified"
    and "as_uint256 (toWei_ether verified) = Some amount"
    and "registerProvider (provider_tx w) amount 10000000000000000000 s = Inr (s1, fx)"
  shows "startProvider_register w s table =
           (case createProvider
                   \<lparr>provider_id = providerId w, wallet_address = walletAddress w,
                    allocated_storage = of_int verified, price_per_gb = 10,
                    is_active = Some True, total_storage = of_int available,
                    available_storage = of_int available,
                    last_updated = Some (time_now w)\<rparr> table of
              Inr table' \<Rightarrow> (ProviderRegisteredOk, s1, table')
            | Inl providers_pkey \<Rightarrow>
                (ProviderUpdatedOk, s1,
                 updateProviderStorage (providerId w) (of_int verified) (of_int available)
                   (time_now w) table)
            | Inl providers_wallet_address_key \<Rightarrow> (RegistrationFailed, s1, table))"
  using assms
  by (simp add: startProvider_register_def price_as_uint256
      split: sum.splits insert_error.splits)

lemma startProvider_register_reaches:
  assumes "startProvider_register w s table = (outcome, s', table')"
    and "outcome \<noteq> RegistrationFailed"
  shows "\<exists>available verified amount fx.
           checkAvailableStorage (wmic_answer w) = Some available \<and>
           verifiedStorage w = Some verified \<and>
           as_uint256 (toWei_ether verified) = Some amount \<and>
           registerProvider (provider_tx w) amount 10000000000000000000 s = Inr (s', fx)"
proof (cases "checkAvailableStorage (wmic_answer w)")
  case None
  with assms show ?thesis by (simp add: startProvider_register_def)
next
  case a: (Some available)
  show ?thesis
  proof (cases "verifiedStorage w")
    case None
    with assms a show ?thesis by (simp add: startProvider_register_def)
  next
    case v: (Some verified)
    show ?thesis
    proof (cases "as_uint256 (toWei_ether verified)")
      case None
      with assms a v show ?thesis by (simp add: startProvider_register_def)
    next
      case amt: (Some amount)
      show ?thesis
      proof (cases "registerProvider (provider_tx w) amount 10000000000000000000 s")
        case (Inl abort)
        with assms a v amt show ?thesis
          by (simp add: startProvider_register_def price_as_uint256)
      next
        case (Inr result)
        obtain s1 fx where result: "result = (s1, fx)" by (cases result)
        from startProvider_register_steps [OF a v amt Inr [unfolded result], of table] assms(1)
        have "s' = s1"
          by (auto split: sum.splits insert_error.splits)
        with a v amt Inr result show ?thesis by blast
      qed
    qed
  qed
qed

lemma startProvider_register_success:
  assumes run: "startProvider_register w s table = (outcome, s', table')"
    and ok: "outcome \<noteq> RegistrationFailed"
  shows "\<exists>requested available.
           parseInt (answers_storage w) = Some requested \<and>
           checkAvailableStorage (wmic_answer w) = Some available \<and>
           0 < min requested available \<and>
           unat (allocatedStorage (providers s' (msg_sender (provider_tx w)))) =
             nat (min requested available * 10 ^ 18) \<and>
           list_ex (\<lambda>r. provider_id r = providerId w) table' \<and>
           list_all (\<lambda>r. provider_id r = providerId w \<longrightarrow>
                          allocated_storage r = of_int (min requested available)) table'"
proof -
  from startProvider_register_reaches [OF run ok] obtain available verified amount fx where
    a: "checkAvailableStorage (wmic_answer w) = Some available"
    and v: "verifiedStorage w = Some verified"
    and amt: "as_uint256 (toWei_ether verified) = Some amount"
    and reg: "registerProvider (provider_tx w) amount 10000000000000000000 s = Inr (s', fx)"
    by blast
  from v a obtain requested where
    r: "parseInt (answers_storage w) = Some requested" and m: "verified = min requested available"
    by (auto simp: verifiedStorage_def Math_min_def split: option.splits)
  have amount: "allocatedStorage (providers s' (msg_sender (provider_tx w))) = amount"
    and nz: "amount \<noteq> 0"
    using registerProvider_amount [OF reg] by simp_all
  have nonneg: "0 \<le> toWei_ether verified" and u: "unat amount = nat (toWei_ether verified)"
    using as_uint256_Some [OF amt] by simp_all
  have "unat amount \<noteq> 0" using nz by (simp add: unat_eq_0)
  then have "0 < toWei_ether verified" using u nonneg by simp
  then have pos: "0 < verified" by (simp add: toWei_ether_def zero_less_mult_iff)
  have ledger: "unat (allocatedStorage (providers s' (msg_sender (provider_tx w)))) =
                  nat (verified * 10 ^ 18)"
    using amount u by (simp add: toWei_ether_def)
  let ?row = "\<lparr>provider_id = providerId w, wallet_address = walletAddress w,
               allocated_storage = of_int verified, price_per_gb = 10,
               is_active = Some True, total_storage = of_int available,
               available_storage = of_int available, last_updated = Some (time_now w)\<rparr>"
  note steps = startProvider_register_steps [OF a v amt reg, of table]
  have index: "list_ex (\<lambda>r. provider_id r = providerId w) table' \<and>
               list_all (\<lambda>r. provider_id r = providerId w \<longrightarrow>
                              allocated_storage r = of_int verified) table'"
  proof (cases "list_ex (\<lambda>r. provider_id r = providerId w) table")
    case True
    then have "createProvider ?row table = Inl providers_pkey"
      by (simp add: createProvider_def)
    with steps run have "table' = updateProviderStorage (providerId w) (of_int verified)
                                    (of_int available) (time_now w) table"
      by simp
    moreover from True obtain r0 where "r0 \<in> set table" and "provider_id r0 = providerId w"
      by (auto simp: list_ex_iff)
    ultimately show ?thesis
      unfolding updateProviderStorage_def list_ex_iff list_all_iff
      by (auto intro!: bexI [of _ "r0\<lparr>allocated_storage := of_int verified,
            available_storage := of_int available, is_active := Some True,
            last_updated := Some (time_now w)\<rparr>"] image_eqI [of _ _ r0])
  next
    case False
    show ?thesis
    proof (cases "list_ex (\<lambda>r. wallet_address r = walletAddress w) table")
      case True
      with False have "createProvider ?row table = Inl providers_wallet_address_key"
        by (simp add: createProvider_def)
      with steps run ok show ?thesis by simp
    next
      case no_wallet: False
      with False have "createProvider ?row table = Inr (table @ [?row])"
        by (simp add: createProvider_def)
      with steps run have "table' = table @ [?row]" by simp
      with False show ?thesis
        by (auto simp: list_ex_iff list_all_iff)
    qed
  qed
  from r a pos ledger index show ?thesis unfolding m by blast
qed

lemma provider_on_50GB_check:
  "parseInt (answers_storage provider_on_50GB) = Some 80 \<and>
   checkAvailableStorage (wmic_answer provider_on_50GB) = Some 50"
  by (simp add: provider_on_50GB_def provider_on_failed_check_def checkAvailableStorage_def
      add_drive_def line_fields_def is_space_def parseInt_def is_digit_def digit_of_def
      number_of_def Let_def)

lemma provider_on_50GB_registers:
  "fst (startProvider_register provider_on_50GB example_ledger []) = ProviderRegisteredOk"
proof -
  have v: "verifiedStorage provider_on_50GB = Some 50"
    using provider_on_50GB_check by (simp add: verifiedStorage_def Math_min_def)
  have amt: "as_uint256 (toWei_ether 50) = Some 50000000000000000000"
    by (simp add: as_uint256_def toWei_ether_def)
  obtain s1 fx where reg:
    "registerProvider (provider_tx provider_on_50GB) 50000000000000000000
       10000000000000000000 example_ledger = Inr (s1, fx)"
    by (simp add: registerProvider_def and_then_def require_def Let_def)
  from startProvider_register_steps [OF conjunct2 [OF provider_on_50GB_check] v amt reg, of "[]"]
  show ?thesis by (simp add: createProvider_def)
qed

lemma provider_on_failed_check_input:
  "wmic_answer provider_on_failed_check = ExecFailed \<and>
   parseInt (answers_storage provider_on_failed_check) = Some 80"
  by (simp add: provider_on_failed_check_def parseInt_def is_space_def is_digit_def
      digit_of_def number_of_def Let_def)

text \<open>
  C10, as the claim states it, fails where the disk check fails: the amount to register
  is 0, the ledger rejects it ('Storage must be greater than 0'), and the registration
  step ends with nothing registered and nothing recorded. Here the provider had
  registered 200 units before; the ledger still holds 200, not 0, and the index is empty.
\<close>

theorem startProvider_failed_check_counterexample:
  "wmic_answer provider_on_failed_check = ExecFailed \<and>
   checkAvailableStorage (wmic_answer provider_on_failed_check) = Some 0 \<and>
   startProvider_register provider_on_failed_check example_ledger [] =
     (RegistrationFailed, example_ledger, []) \<and>
   msg_sender (provider_tx provider_on_failed_check) = 1 \<and>
   allocatedStorage (providers example_ledger 1) = 200"
proof -
  from startProvider_register_failed_check [of provider_on_failed_check 80 example_ledger "[]"]
    provider_on_failed_check_input
  have "startProvider_register provider_on_failed_check example_ledger [] =
          (RegistrationFailed, example_ledger, [])"
    by simp
  then show ?thesis
    using provider_on_failed_check_input
    by (simp add: checkAvailableStorage_failed)
       (simp add: provider_on_failed_check_def example_tx_def example_ledger_def)
qed

text \<open>
  C10, amended. When the registration step of \<^verbatim>\<open>startProvider\<close> succeeds, the
  amount registered on the ledger is the minimum of the allocation the operator asked
  for (\<^verbatim>\<open>parseInt\<close> of the answer) and the free space that
  \<^verbatim>\<open>checkAvailableStorage\<close> reports, in units of \<open>10^-18\<close> GB, that minimum is not
  zero, and the index has a record of the provider and every record of the provider has
  that minimum as its allocated storage. When the disk check fails,
  \<^verbatim>\<open>checkAvailableStorage\<close> returns 0, the amount to register is 0, and the step fails:
  the ledger and the index stay as they were.
\<close>

theorem startProvider_registers_minimum:
  "(startProvider_register w s table = (outcome, s', table') \<and> outcome \<noteq> RegistrationFailed
      \<longrightarrow>
      (\<exists>requested available.
         parseInt (answers_storage w) = Some requested \<and>
         checkAvailableStorage (wmic_answer w) = Some available \<and>
         0 < min requested available \<and>
         unat (allocatedStorage (providers s' (msg_sender (provider_tx w)))) =
           nat (min requested available * 10 ^ 18) \<and>
         list_ex (\<lambda>r. provider_id r = providerId w) table' \<and>
         list_all (\<lambda>r. provider_id r = providerId w \<longrightarrow>
                        allocated_storage r = of_int (min requested available)) table')) \<and>
   (wmic_answer w = ExecFailed \<and> parseInt (answers_storage w) = Some asked \<and> 0 < asked
      \<longrightarrow>
      checkAvailableStorage (wmic_answer w) = Some 0 \<and> verifiedStorage w = Some 0 \<and>
      startProvider_register w s table = (RegistrationFailed, s, table))"
  using startProvider_register_success [of w s table outcome s' table']
    startProvider_register_failed_check [of w asked s table] checkAvailableStorage_failed
  by auto

theorem startProvider_registers_minimum_witness:
  "fst (startProvider_register provider_on_50GB example_ledger []) = ProviderRegisteredOk \<and>
   parseInt (answers_storage provider_on_50GB) = Some 80 \<and>
   checkAvailableStorage (wmic_answer provider_on_50GB) = Some 50 \<and>
   unat (allocatedStorage
           (providers (fst (snd (startProvider_register provider_on_50GB example_ledger [])))
              (msg_sender (provider_tx provider_on_50GB)))) = 50 * 10 ^ 18 \<and>
   list_all (\<lambda>r. allocated_storage r = 50)
     (snd (snd (startProvider_register provider_on_50GB example_ledger []))) \<and>
   wmic_answer provider_on_failed_check = ExecFailed \<and>
   parseInt (answers_storage provider_on_failed_check) = Some 80 \<and>
   startProvider_register provider_on_failed_check empty_StorageContract [] =
     (RegistrationFailed, empty_StorageContract, [])"
proof -
  obtain outcome s' table' where
    run: "startProvider_register provider_on_50GB example_ledger [] = (outcome, s', table')"
    by (cases "startProvider_register provider_on_50GB example_ledger []") auto
  with provider_on_50GB_registers have ok: "outcome = ProviderRegisteredOk" by simp
  from startProvider_registers_minimum
         [THEN conjunct1, of provider_on_50GB example_ledger "[]" outcome s' table'] run ok
  obtain requested available where
    "parseInt (answers_storage provider_on_50GB) = Some requested"
    "checkAvailableStorage (wmic_answer provider_on_50GB) = Some available"
    "unat (allocatedStorage (providers s' (msg_sender (provider_tx provider_on_50GB)))) =
       nat (min requested available * 10 ^ 18)"
    "list_all (\<lambda>r. provider_id r = providerId provider_on_50GB \<longrightarrow>
                   allocated_storage r = of_int (min requested available)) table'"
    by auto
  with provider_on_50GB_check
  have ledger: "unat (allocatedStorage (providers s' (msg_sender (provider_tx provider_on_50GB))))
                  = 50 * 10 ^ 18"
    and index: "list_all (\<lambda>r. provider_id r = providerId provider_on_50GB \<longrightarrow>
                               allocated_storage r = 50) table'"
    by simp_all
  have only: "list_all (\<lambda>r. provider_id r = providerId provider_on_50GB) table'"
  proof -
    have v: "verifiedStorage provider_on_50GB = Some 50"
      using provider_on_50GB_check by (simp add: verifiedStorage_def Math_min_def)
    have amt: "as_uint256 (toWei_ether 50) = Some 50000000000000000000"
      by (simp add: as_uint256_def toWei_ether_def)
    obtain s1 fx where reg:
      "registerProvider (provider_tx provider_on_50GB) 50000000000000000000
         10000000000000000000 example_ledger = Inr (s1, fx)"
      by (simp add: registerProvider_def and_then_def require_def Let_def)
    from startProvider_register_steps
           [OF conjunct2 [OF provider_on_50GB_check] v amt reg, of "[]"] run
    show ?thesis by (auto simp: createProvider_def)
  qed
  from index only have all50: "list_all (\<lambda>r. allocated_storage r = 50) table'"
    by (auto simp: list_all_iff)
  from startProvider_registers_minimum
         [THEN conjunct2, of provider_on_failed_check 80 empty_StorageContract "[]"]
    provider_on_failed_check_input
  have failed: "startProvider_register provider_on_failed_check empty_StorageContract [] =
                  (RegistrationFailed, empty_StorageContract, [])"
    by simp
  from run ok ledger all50 failed provider_on_50GB_check provider_on_failed_check_input
  show ?thesis by simp
qed

subsection \<open>The credential store\<close>

lemma standin_library_decrypts: "decrypts_own_output standin_library passphrase"
  by (simp add: decrypts_own_output_def standin_library_def)

lemma load_after_save:
  "writable fs \<Longrightarrow>
     loadPrivateKey lib (snd (savePrivateKey lib seed key fs)) =
       AES_decrypt_passphrase lib (AES_encrypt_passphrase lib key ENCRYPTION_KEY seed)
         ENCRYPTION_KEY"
  by (simp add: savePrivateKey_def loadPrivateKey_def Let_def)

lemma keystore_needs_library:
  "(\<forall>key seed fs. writable fs \<longrightarrow>
       loadPrivateKey lib (snd (savePrivateKey lib seed key fs)) = Some key)
   \<longleftrightarrow> decrypts_own_output lib ENCRYPTION_KEY"
proof
  assume all: "\<forall>key seed fs. writable fs \<longrightarrow>
       loadPrivateKey lib (snd (savePrivateKey lib seed key fs)) = Some key"
  show "decrypts_own_output lib ENCRYPTION_KEY"
    unfolding decrypts_own_output_def
  proof (intro allI)
    fix message seed
    have "writable empty_disk" by (simp add: empty_disk_def)
    with all have "loadPrivateKey lib (snd (savePrivateKey lib seed message empty_disk)) =
                     Some message"
      by blast
    then show "AES_decrypt_passphrase lib
                 (AES_encrypt_passphrase lib message ENCRYPTION_KEY seed) ENCRYPTION_KEY =
               Some message"
      by (simp add: load_after_save empty_disk_def)
  qed
next
  assume "decrypts_own_output lib ENCRYPTION_KEY"
  then show "\<forall>key seed fs. writable fs \<longrightarrow>
       loadPrivateKey lib (snd (savePrivateKey lib seed key fs)) = Some key"
    by (simp add: load_after_save decrypts_own_output_def)
qed

text \<open>
  C9. \<^verbatim>\<open>loadPrivateKey\<close> after \<^verbatim>\<open>savePrivateKey(key)\<close> returns exactly
  \<open>key\<close>, for every key and whatever the keystore held before, exactly when the
  library decrypts its own output under the keystore's passphrase: the two functions
  pass the same passphrase and the same file, and add no failure of their own but the
  write (a save whose write fails returns \<^verbatim>\<open>false\<close> and leaves the keystore as it
  was). And \<^verbatim>\<open>loadPrivateKey\<close> returns \<^verbatim>\<open>null\<close> when there is no keystore
  file, whatever the library.
\<close>

theorem keystore_roundtrip:
  "((\<forall>key seed fs. writable fs \<longrightarrow>
        loadPrivateKey lib (snd (savePrivateKey lib seed key fs)) = Some key)
      \<longleftrightarrow> decrypts_own_output lib ENCRYPTION_KEY) \<and>
   (decrypts_own_output lib ENCRYPTION_KEY \<and> savePrivateKey lib seed key fs = (True, fs')
      \<longrightarrow> loadPrivateKey lib fs' = Some key) \<and>
   (\<not> writable fs \<longrightarrow> savePrivateKey lib seed key fs = (False, fs)) \<and>
   (files fs KEYSTORE_FILE = None \<longrightarrow> loadPrivateKey lib' fs = None)"
proof -
  have saved: "loadPrivateKey lib fs' = Some key"
    if "decrypts_own_output lib ENCRYPTION_KEY" and "savePrivateKey lib seed key fs = (True, fs')"
    using that
    by (auto simp: savePrivateKey_def loadPrivateKey_def decrypts_own_output_def Let_def
        split: if_splits)
  have failed: "savePrivateKey lib seed key fs = (False, fs)" if "\<not> writable fs"
    using that by (simp add: savePrivateKey_def)
  have absent: "loadPrivateKey lib' fs = None" if "files fs KEYSTORE_FILE = None"
    using that by (simp add: loadPrivateKey_def)
  from keystore_needs_library [of lib] saved failed absent show ?thesis by blast
qed

theorem keystore_roundtrip_witness:
  "decrypts_own_output standin_library ENCRYPTION_KEY \<and>
   writable empty_disk \<and>
   savePrivateKey standin_library 7 ''0xabc'' empty_disk =
     (True, empty_disk\<lparr>files := [KEYSTORE_FILE \<mapsto> ''cbax0'']\<rparr>) \<and>
   loadPrivateKey standin_library (empty_disk\<lparr>files := [KEYSTORE_FILE \<mapsto> ''cbax0'']\<rparr>)
     = Some ''0xabc'' \<and>
   files empty_disk KEYSTORE_FILE = None \<and>
   loadPrivateKey standin_library empty_disk = None"
proof -
  have saved: "savePrivateKey standin_library 7 ''0xabc'' empty_disk =
                 (True, empty_disk\<lparr>files := [KEYSTORE_FILE \<mapsto> ''cbax0'']\<rparr>)"
    by (simp add: savePrivateKey_def empty_disk_def standin_library_def)
  have none: "files empty_disk KEYSTORE_FILE = None" and w: "writable empty_disk"
    by (simp_all add: empty_disk_def)
  from keystore_roundtrip
         [of standin_library 7 "''0xabc''" empty_disk
             "empty_disk\<lparr>files := [KEYSTORE_FILE \<mapsto> ''cbax0'']\<rparr>" standin_library]
    standin_library_decrypts saved none w
  show ?thesis by simp
qed

end
